theory Spec2Isabelle
  imports Main "HOL-Library.Word" "HOL-Library.Sublist"
begin

section \<open>Strings\<close>

text \<open>
  A JavaScript string is a sequence of UTF-16 code units, and every string operation the
  service uses (\<^verbatim>\<open>match\<close>, \<^verbatim>\<open>replace\<close>, \<^verbatim>\<open>trim\<close>, truthiness) works on code units.
  String literals of the source are written as their code units.
\<close>

type_synonym jsstring = "16 word list"

text \<open>
  \<^verbatim>\<open>String.prototype.trim\<close> removes the ECMAScript WhiteSpace and LineTerminator code
  units from both ends: TAB, LF, VT, FF, CR, SP, NBSP, U+1680, U+2000 to U+200A, U+2028,
  U+2029, U+202F, U+205F, U+3000 and U+FEFF.
\<close>

definition is_white_space :: "16 word \<Rightarrow> bool" where
  "is_white_space c \<longleftrightarrow>
     c = 0x09 \<or> c = 0x0A \<or> c = 0x0B \<or> c = 0x0C \<or> c = 0x0D \<or> c = 0x20 \<or> c = 0xA0 \<or>
     c = 0x1680 \<or> (0x2000 \<le> c \<and> c \<le> 0x200A) \<or> c = 0x2028 \<or> c = 0x2029 \<or>
     c = 0x202F \<or> c = 0x205F \<or> c = 0x3000 \<or> c = 0xFEFF"

definition trim :: "jsstring \<Rightarrow> jsstring" where
  "trim s = rev (dropWhile is_white_space (rev (dropWhile is_white_space s)))"

text \<open>
  \<^verbatim>\<open>s.replace(pat, '')\<close> with a string pattern: the first occurrence of \<open>pat\<close> in \<open>s\<close>,
  scanning from the left, is replaced; \<open>s\<close> is returned as it is when \<open>pat\<close> does not
  occur. (The replacement is the empty string in the source, so none of the \<^verbatim>\<open>$\<close>
  patterns of \<^verbatim>\<open>replace\<close> can arise.)
\<close>

fun replace_first :: "jsstring \<Rightarrow> jsstring \<Rightarrow> jsstring \<Rightarrow> jsstring" where
  "replace_first pat rep [] = (if pat = [] then rep else [])"
| "replace_first pat rep (x # xs) =
     (if prefix pat (x # xs) then rep @ drop (length pat) (x # xs)
      else x # replace_first pat rep xs)"

section \<open>The regular expression of the response parser\<close>

text \<open>
  The source matches the response text against
  \<^verbatim>\<open>/```json\n([\s\S]*?)\n```/\<close>:
  the literal opening fence (three backquotes, \<^verbatim>\<open>json\<close>, a line feed), a lazy run of
  arbitrary code units (group 1), and the literal closing fence (a line feed and three
  backquotes).
\<close>

definition fence_open :: jsstring where
  "fence_open = [0x60, 0x60, 0x60, 0x6A, 0x73, 0x6F, 0x6E, 0x0A]"

definition fence_close :: jsstring where
  "fence_close = [0x0A, 0x60, 0x60, 0x60]"

text \<open>
  The lazy quantifier \<^verbatim>\<open>[\s\S]*?\<close> tries the shortest run first and grows it by one code
  unit each time the rest of the pattern (the closing fence) fails to match.
\<close>

fun lazy_group :: "jsstring \<Rightarrow> jsstring option" where
  "lazy_group [] = None"
| "lazy_group (x # xs) =
     (if prefix fence_close (x # xs) then Some []
      else map_option ((#) x) (lazy_group xs))"

text \<open>
  One attempt of the matcher at a fixed start position; the result is the pair of
  \<^verbatim>\<open>jsonMatch[0]\<close> (the whole match) and \<^verbatim>\<open>jsonMatch[1]\<close> (group 1).
\<close>

definition match_here :: "jsstring \<Rightarrow> (jsstring \<times> jsstring) option" where
  "match_here s =
     (if prefix fence_open s then
        (case lazy_group (drop (length fence_open) s) of
           None \<Rightarrow> None
         | Some g \<Rightarrow> Some (fence_open @ g @ fence_close, g))
      else None)"

text \<open>
  \<^verbatim>\<open>fullText.match(re)\<close> for a regular expression without the \<^verbatim>\<open>g\<close> flag: the start
  positions are tried from left to right and the first successful attempt is the result;
  \<^verbatim>\<open>null\<close> (here \<open>None\<close>) when every position fails.
\<close>

fun json_match :: "jsstring \<Rightarrow> (jsstring \<times> jsstring) option" where
  "json_match [] = None"
| "json_match (x # xs) =
     (case match_here (x # xs) of
        Some m \<Rightarrow> Some m
      | None \<Rightarrow> json_match xs)"

section \<open>String constants of the source\<close>

text \<open>
  The literals of the service and of the two components, as UTF-16 code units:
  \<open>SYSTEM_INSTRUCTION\<close> (the persona and the layout rules, ending with the shape of the
  structured block), the two halves of the analysis prompt around the interpolated
  \<^verbatim>\<open>files.length\<close>, the model name \<^verbatim>\<open>gemini-2.5-flash\<close>, the reply used when the chat
  service returns no text, the transcript entry for a failed chat turn, the notice of a
  failed analysis, the transcript entry for a finished analysis, and the prefix
  \<^verbatim>\<open>analysis-\<close> of its id.
\<close>

definition SYSTEM_INSTRUCTION :: jsstring where
  "SYSTEM_INSTRUCTION =
     [0x0A, 0x4F60, 0x662F, 0x4E16, 0x754C, 0x7EA7, 0x7684, 0x5B8F, 0x89C2, 0x5BF9, 0x51B2,
      0x57FA, 0x91D1, 0x7ECF, 0x7406, 0x548C, 0x6280, 0x672F, 0x5206, 0x6790, 0x5927, 0x5E08,
      0x3002, 0x0A, 0x4F60, 0x7684, 0x6838, 0x5FC3, 0x80FD, 0x529B, 0x662F, 0x5C06, 0x2A, 0x2A,
      0x591A, 0x5F20, 0x56FE, 0x8868, 0x2A, 0x2A, 0x653E, 0x5728, 0x4E00, 0x8D77, 0x8FDB, 0x884C,
      0x2A, 0x2A, 0x5173, 0x8054, 0x5206, 0x6790, 0x2A, 0x2A, 0xFF08, 0x43, 0x72, 0x6F, 0x73,
      0x73, 0x2D, 0x41, 0x73, 0x73, 0x65, 0x74, 0x20, 0x43, 0x6F, 0x72, 0x72, 0x65, 0x6C, 0x61,
      0x74, 0x69, 0x6F, 0x6E, 0x20, 0x41, 0x6E, 0x61, 0x6C, 0x79, 0x73, 0x69, 0x73, 0xFF09,
      0xFF0C, 0x5E76, 0x7ED3, 0x5408, 0x2A, 0x2A, 0x5B9E, 0x65F6, 0x7F51, 0x7EDC, 0x641C, 0x7D22,
      0x2A, 0x2A, 0x6765, 0x9A8C, 0x8BC1, 0x4F60, 0x7684, 0x5047, 0x8BBE, 0x3002, 0x0A, 0x0A,
      0x2A, 0x2A, 0x4F60, 0x7684, 0x5DE5, 0x4F5C, 0x6D41, 0x7A0B, 0xFF1A, 0x2A, 0x2A, 0x0A, 0x31,
      0x2E, 0x20, 0x2A, 0x2A, 0x89C6, 0x89C9, 0x8BC6, 0x522B, 0x2A, 0x2A, 0xFF1A, 0x9996, 0x5148,
      0x51C6, 0x786E, 0x8BC6, 0x522B, 0x6BCF, 0x4E00, 0x5F20, 0x4E0A, 0x4F20, 0x56FE, 0x7247,
      0x4E2D, 0x7684, 0x8D44, 0x4EA7, 0x540D, 0x79F0, 0x3001, 0x4EE3, 0x7801, 0xFF08, 0x54, 0x69,
      0x63, 0x6B, 0x65, 0x72, 0xFF09, 0x3001, 0x65F6, 0x95F4, 0x5468, 0x671F, 0x548C, 0x5F53,
      0x524D, 0x6280, 0x672F, 0x5F62, 0x6001, 0x3002, 0x0A, 0x32, 0x2E, 0x20, 0x2A, 0x2A, 0x8054,
      0x7F51, 0x641C, 0x7D22, 0x2A, 0x2A, 0xFF1A, 0x9488, 0x5BF9, 0x8BC6, 0x522B, 0x51FA, 0x7684,
      0x8D44, 0x4EA7, 0xFF0C, 0x5229, 0x7528, 0x20, 0x47, 0x6F, 0x6F, 0x67, 0x6C, 0x65, 0x20,
      0x53, 0x65, 0x61, 0x72, 0x63, 0x68, 0x20, 0x67E5, 0x627E, 0x2A, 0x2A, 0x4ECA, 0x65E5, 0x2F,
      0x8FD1, 0x671F, 0x2A, 0x2A, 0x7684, 0x5173, 0x952E, 0x65B0, 0x95FB, 0x3001, 0x8D22, 0x62A5,
      0x6570, 0x636E, 0x6216, 0x5B8F, 0x89C2, 0x4E8B, 0x4EF6, 0x3002, 0x0A, 0x33, 0x2E, 0x20,
      0x2A, 0x2A, 0x903B, 0x8F91, 0x5173, 0x8054, 0x2A, 0x2A, 0xFF1A, 0x4E0D, 0x8981, 0x5B64,
      0x7ACB, 0x5730, 0x5206, 0x6790, 0x6BCF, 0x5F20, 0x56FE, 0x3002, 0x4F60, 0x5FC5, 0x987B,
      0x5BFB, 0x627E, 0x56FE, 0x8868, 0x4E4B, 0x95F4, 0x7684, 0x8054, 0x7CFB, 0x3002, 0x4F8B,
      0x5982, 0xFF1A, 0x0A, 0x20, 0x20, 0x20, 0x2D, 0x20, 0x5982, 0x679C, 0x7528, 0x6237, 0x4E0A,
      0x4F20, 0x4E86, 0x201C, 0x7F8E, 0x5143, 0x6307, 0x6570, 0x201D, 0x548C, 0x201C, 0x9EC4,
      0x91D1, 0x201D, 0xFF0C, 0x8BF7, 0x5206, 0x6790, 0x7F8E, 0x5143, 0x8D70, 0x52BF, 0x5982,
      0x4F55, 0x5F71, 0x54CD, 0x9EC4, 0x91D1, 0x3002, 0x0A, 0x20, 0x20, 0x20, 0x2D, 0x20, 0x5982,
      0x679C, 0x7528, 0x6237, 0x4E0A, 0x4F20, 0x4E86, 0x201C, 0x82F1, 0x4F1F, 0x8FBE, 0x201D,
      0x548C, 0x201C, 0x7EB3, 0x65AF, 0x8FBE, 0x514B, 0x201D, 0xFF0C, 0x8BF7, 0x5206, 0x6790,
      0x6743, 0x91CD, 0x80A1, 0x5BF9, 0x6307, 0x6570, 0x7684, 0x9A71, 0x52A8, 0x3002, 0x0A, 0x34,
      0x2E, 0x20, 0x2A, 0x2A, 0x672C, 0x8D28, 0x6D1E, 0x5BDF, 0x2A, 0x2A, 0xFF1A, 0x900F, 0x8FC7,
      0x73B0, 0x8C61, 0x770B, 0x672C, 0x8D28, 0xFF0C, 0x89E3, 0x91CA, 0x8D44, 0x91D1, 0x6D41,
      0x5411, 0x548C, 0x5E02, 0x573A, 0x5FC3, 0x7406, 0x3002, 0x0A, 0x0A, 0x2A, 0x2A, 0x5185,
      0x5BB9, 0x6392, 0x7248, 0x8981, 0x6C42, 0xFF1A, 0x2A, 0x2A, 0x0A, 0x31, 0x2E, 0x20, 0x2A,
      0x2A, 0x7ED3, 0x6784, 0x6E05, 0x6670, 0x2A, 0x2A, 0xFF1A, 0x4F7F, 0x7528, 0x20, 0x4D, 0x61,
      0x72, 0x6B, 0x64, 0x6F, 0x77, 0x6E, 0x20, 0x6807, 0x9898, 0xFF08, 0x23, 0x23, 0x23, 0xFF09,
      0x5206, 0x9694, 0x4E0D, 0x540C, 0x90E8, 0x5206, 0x3002, 0x0A, 0x32, 0x2E, 0x20, 0x2A, 0x2A,
      0x7A81, 0x51FA, 0x91CD, 0x70B9, 0x2A, 0x2A, 0xFF1A, 0x5173, 0x952E, 0x7ED3, 0x8BBA, 0x3001,
      0x6570, 0x636E, 0x70B9, 0x6216, 0x8D8B, 0x52BF, 0x540D, 0x79F0, 0x5FC5, 0x987B, 0x4F7F,
      0x7528, 0x2A, 0x2A, 0x7C97, 0x4F53, 0x2A, 0x2A, 0x663E, 0x793A, 0x3002, 0x0A, 0x33, 0x2E,
      0x20, 0x2A, 0x2A, 0x7559, 0x767D, 0x7F8E, 0x89C2, 0x2A, 0x2A, 0xFF1A, 0x5728, 0x4E0D,
      0x540C, 0x7684, 0x903B, 0x8F91, 0x6BB5, 0x843D, 0x4E4B, 0x95F4, 0xFF0C, 0x5FC5, 0x987B,
      0x4FDD, 0x7559, 0x7A7A, 0x767D, 0x884C, 0x3002, 0x0A, 0x34, 0x2E, 0x20, 0x2A, 0x2A, 0x8BED,
      0x8A00, 0x98CE, 0x683C, 0x2A, 0x2A, 0xFF1A, 0x7B80, 0x4F53, 0x4E2D, 0x6587, 0xFF0C, 0x4E13,
      0x4E1A, 0x3001, 0x7280, 0x5229, 0x3001, 0x76F4, 0x51FB, 0x8981, 0x5BB3, 0x3002, 0x0A, 0x0A,
      0x5173, 0x952E, 0xFF1A, 0x4F60, 0x8FD8, 0x5FC5, 0x987B, 0x5728, 0x56DE, 0x590D, 0x7684,
      0x6700, 0x540E, 0x751F, 0x6210, 0x4E00, 0x4E2A, 0x7279, 0x5B9A, 0x7684, 0x20, 0x4A, 0x53,
      0x4F, 0x4E, 0x20, 0x5757, 0x7528, 0x4E8E, 0x53EF, 0x89C6, 0x5316, 0x3002, 0x0A, 0x4A, 0x53,
      0x4F, 0x4E, 0x20, 0x5757, 0x5FC5, 0x987B, 0x5305, 0x88F9, 0x5728, 0x20, 0x60, 0x60, 0x60,
      0x6A, 0x73, 0x6F, 0x6E, 0x20, 0x2E, 0x2E, 0x2E, 0x20, 0x60, 0x60, 0x60, 0x20, 0x4EE3,
      0x7801, 0x5757, 0x4E2D, 0x3002, 0x0A, 0x4A, 0x53, 0x4F, 0x4E, 0x20, 0x7ED3, 0x6784, 0x5FC5,
      0x987B, 0x662F, 0xFF1A, 0x0A, 0x7B, 0x0A, 0x20, 0x20, 0x22, 0x73, 0x65, 0x6E, 0x74, 0x69,
      0x6D, 0x65, 0x6E, 0x74, 0x53, 0x63, 0x6F, 0x72, 0x65, 0x22, 0x3A, 0x20, 0x6E, 0x75, 0x6D,
      0x62, 0x65, 0x72, 0x2C, 0x20, 0x2F, 0x2F, 0x20, 0x30, 0x2D, 0x31, 0x30, 0x30, 0x20, 0x28,
      0x30, 0x3D, 0x6781, 0x7AEF, 0x6050, 0x60E7, 0x2C, 0x20, 0x31, 0x30, 0x30, 0x3D, 0x6781,
      0x7AEF, 0x8D2A, 0x5A6A, 0x29, 0x0A, 0x20, 0x20, 0x22, 0x76, 0x6F, 0x6C, 0x61, 0x74, 0x69,
      0x6C, 0x69, 0x74, 0x79, 0x49, 0x6E, 0x64, 0x65, 0x78, 0x22, 0x3A, 0x20, 0x6E, 0x75, 0x6D,
      0x62, 0x65, 0x72, 0x2C, 0x20, 0x2F, 0x2F, 0x20, 0x30, 0x2D, 0x31, 0x30, 0x30, 0x20, 0x28,
      0x9AD8, 0x6D3B, 0x8DC3, 0x5EA6, 0x2F, 0x6CE2, 0x52A8, 0x20, 0x3D, 0x20, 0x9AD8, 0x5206,
      0x29, 0x0A, 0x20, 0x20, 0x22, 0x6D, 0x61, 0x72, 0x6B, 0x65, 0x74, 0x50, 0x68, 0x61, 0x73,
      0x65, 0x22, 0x3A, 0x20, 0x73, 0x74, 0x72, 0x69, 0x6E, 0x67, 0x2C, 0x20, 0x2F, 0x2F, 0x20,
      0x77ED, 0x8BED, 0xFF0C, 0x5982, 0x20, 0x22, 0x770B, 0x6DA8, 0x7A81, 0x7834, 0x22, 0x2C,
      0x20, 0x22, 0x56DE, 0x8C03, 0x22, 0x2C, 0x20, 0x22, 0x76D8, 0x6574, 0x22, 0x0A, 0x20, 0x20,
      0x22, 0x6B, 0x65, 0x79, 0x53, 0x65, 0x63, 0x74, 0x6F, 0x72, 0x73, 0x22, 0x3A, 0x20, 0x5B,
      0x0A, 0x20, 0x20, 0x20, 0x20, 0x7B, 0x20, 0x22, 0x6E, 0x61, 0x6D, 0x65, 0x22, 0x3A, 0x20,
      0x22, 0x677F, 0x5757, 0x540D, 0x79F0, 0x22, 0x2C, 0x20, 0x22, 0x74, 0x72, 0x65, 0x6E, 0x64,
      0x22, 0x3A, 0x20, 0x22, 0x75, 0x70, 0x22, 0x20, 0x7C, 0x20, 0x22, 0x64, 0x6F, 0x77, 0x6E,
      0x22, 0x20, 0x7C, 0x20, 0x22, 0x6E, 0x65, 0x75, 0x74, 0x72, 0x61, 0x6C, 0x22, 0x2C, 0x20,
      0x22, 0x76, 0x61, 0x6C, 0x75, 0x65, 0x22, 0x3A, 0x20, 0x6E, 0x75, 0x6D, 0x62, 0x65, 0x72,
      0x20, 0x28, 0x2D, 0x31, 0x30, 0x30, 0x20, 0x74, 0x6F, 0x20, 0x31, 0x30, 0x30, 0x29, 0x20,
      0x7D, 0x0A, 0x20, 0x20, 0x5D, 0x0A, 0x7D, 0x0A]"

definition prompt_head :: jsstring where
  "prompt_head =
     [0x0A, 0x20, 0x20, 0x20, 0x20, 0x8BF7, 0x5BF9, 0x4E0A, 0x4F20, 0x7684, 0x8FD9, 0x20]"

definition prompt_tail :: jsstring where
  "prompt_tail =
     [0x20, 0x5F20, 0x5E02, 0x573A, 0x56FE, 0x8868, 0x8FDB, 0x884C, 0x7EFC, 0x5408, 0x5173,
      0x8054, 0x5206, 0x6790, 0x3002, 0x0A, 0x0A, 0x20, 0x20, 0x20, 0x20, 0x8BF7, 0x4E25, 0x683C,
      0x6309, 0x7167, 0x4EE5, 0x4E0B, 0x6B65, 0x9AA4, 0x601D, 0x8003, 0x5E76, 0x8F93, 0x51FA,
      0x62A5, 0x544A, 0xFF1A, 0x0A, 0x0A, 0x20, 0x20, 0x20, 0x20, 0x23, 0x23, 0x23, 0x20, 0x7B2C,
      0x4E00, 0x6B65, 0xFF1A, 0x56FE, 0x8868, 0x5185, 0x5BB9, 0x6982, 0x89C8, 0x20, 0x28, 0x5FC5,
      0x987B, 0x653E, 0x5728, 0x62A5, 0x544A, 0x6700, 0x524D, 0x9762, 0x29, 0x0A, 0x20, 0x20,
      0x20, 0x20, 0x8BF7, 0x4F9D, 0x6B21, 0x5BF9, 0x6BCF, 0x4E00, 0x5F20, 0x56FE, 0x7247, 0x8FDB,
      0x884C, 0x4E00, 0x53E5, 0x8BDD, 0x7CBE, 0x51C6, 0x6982, 0x62EC, 0xFF0C, 0x683C, 0x5F0F,
      0x5982, 0x4E0B, 0xFF1A, 0x0A, 0x20, 0x20, 0x20, 0x20, 0x2A, 0x20, 0x20, 0x20, 0x2A, 0x2A,
      0x56FE, 0x8868, 0x20, 0x31, 0x20, 0x28, 0x5B, 0x8D44, 0x4EA7, 0x540D, 0x79F0, 0x5D, 0x29,
      0x2A, 0x2A, 0xFF1A, 0x5B, 0x4E00, 0x53E5, 0x8BDD, 0x6982, 0x62EC, 0x5F53, 0x524D, 0x5F62,
      0x6001, 0x6216, 0x8D8B, 0x52BF, 0xFF0C, 0x5982, 0xFF1A, 0x7A81, 0x7834, 0x32, 0x30, 0x65E5,
      0x5747, 0x7EBF, 0xFF0C, 0x91CF, 0x80FD, 0x653E, 0x5927, 0x5D, 0x3002, 0x0A, 0x20, 0x20,
      0x20, 0x20, 0x2A, 0x20, 0x20, 0x20, 0x2A, 0x2A, 0x56FE, 0x8868, 0x20, 0x32, 0x20, 0x28,
      0x5B, 0x8D44, 0x4EA7, 0x540D, 0x79F0, 0x5D, 0x29, 0x2A, 0x2A, 0xFF1A, 0x5B, 0x4E00, 0x53E5,
      0x8BDD, 0x6982, 0x62EC, 0x2E, 0x2E, 0x2E, 0x5D, 0x0A, 0x20, 0x20, 0x20, 0x20, 0x2E, 0x2E,
      0x2E, 0x0A, 0x0A, 0x20, 0x20, 0x20, 0x20, 0x23, 0x23, 0x23, 0x20, 0x7B2C, 0x4E8C, 0x6B65,
      0xFF1A, 0x56FE, 0x8868, 0x8BC6, 0x522B, 0x4E0E, 0x641C, 0x7D22, 0x9A8C, 0x8BC1, 0x0A, 0x20,
      0x20, 0x20, 0x20, 0x2A, 0x20, 0x20, 0x20, 0x2A, 0x2A, 0x4F7F, 0x7528, 0x20, 0x47, 0x6F,
      0x6F, 0x67, 0x6C, 0x65, 0x20, 0x53, 0x65, 0x61, 0x72, 0x63, 0x68, 0x2A, 0x2A, 0x20, 0x641C,
      0x7D22, 0x8FD9, 0x4E9B, 0x6807, 0x7684, 0x2A, 0x2A, 0x4ECA, 0x5929, 0x2A, 0x2A, 0x53D1,
      0x751F, 0x7684, 0x7A81, 0x53D1, 0x65B0, 0x95FB, 0x3001, 0x653F, 0x7B56, 0x53D8, 0x52A8,
      0x6216, 0x4E3B, 0x529B, 0x8D44, 0x91D1, 0x52A8, 0x5411, 0x3002, 0x0A, 0x20, 0x20, 0x20,
      0x20, 0x2A, 0x20, 0x20, 0x20, 0x28, 0x5728, 0x62A5, 0x544A, 0x4E2D, 0x660E, 0x786E, 0x6307,
      0x51FA, 0x4F60, 0x641C, 0x7D22, 0x5230, 0x4E86, 0x4EC0, 0x4E48, 0x5173, 0x952E, 0x4FE1,
      0x606F, 0x6765, 0x652F, 0x6491, 0x4F60, 0x7684, 0x5206, 0x6790, 0x29, 0x3002, 0x0A, 0x0A,
      0x20, 0x20, 0x20, 0x20, 0x23, 0x23, 0x23, 0x20, 0x7B2C, 0x4E09, 0x6B65, 0xFF1A, 0x751F,
      0x6210, 0x6DF1, 0x5EA6, 0x5206, 0x6790, 0x62A5, 0x544A, 0x0A, 0x20, 0x20, 0x20, 0x20,
      0x8BF7, 0x6309, 0x4EE5, 0x4E0B, 0x7ED3, 0x6784, 0x8F93, 0x51FA, 0x20, 0x4D, 0x61, 0x72,
      0x6B, 0x64, 0x6F, 0x77, 0x6E, 0xFF1A, 0x0A, 0x0A, 0x20, 0x20, 0x20, 0x20, 0x23, 0x23, 0x23,
      0x20, 0x31, 0x2E, 0x20, 0x6838, 0x5FC3, 0x672C, 0x8D28, 0x603B, 0x7ED3, 0x20, 0x28, 0x45,
      0x78, 0x65, 0x63, 0x75, 0x74, 0x69, 0x76, 0x65, 0x20, 0x53, 0x75, 0x6D, 0x6D, 0x61, 0x72,
      0x79, 0x29, 0x0A, 0x20, 0x20, 0x20, 0x20, 0x28, 0x4E00, 0x53E5, 0x8BDD, 0x6982, 0x62EC,
      0x591A, 0x5F20, 0x56FE, 0x8868, 0x5171, 0x540C, 0x53CD, 0x6620, 0x7684, 0x5E02, 0x573A,
      0x6838, 0x5FC3, 0x903B, 0x8F91, 0xFF0C, 0x4F8B, 0x5982, 0xFF1A, 0x201C, 0x5728, 0x964D,
      0x606F, 0x9884, 0x671F, 0x843D, 0x7A7A, 0x7684, 0x80CC, 0x666F, 0x4E0B, 0xFF0C, 0x79D1,
      0x6280, 0x80A1, 0x4E0E, 0x907F, 0x9669, 0x8D44, 0x4EA7, 0x51FA, 0x73B0, 0x7F55, 0x89C1,
      0x7684, 0x540C, 0x8DCC, 0x73B0, 0x8C61, 0x3002, 0x201D, 0x29, 0x0A, 0x0A, 0x20, 0x20, 0x20,
      0x20, 0x23, 0x23, 0x23, 0x20, 0x32, 0x2E, 0x20, 0x8DE8, 0x56FE, 0x8868, 0x5173, 0x8054,
      0x5206, 0x6790, 0x20, 0x28, 0x43, 0x6F, 0x72, 0x72, 0x65, 0x6C, 0x61, 0x74, 0x69, 0x6F,
      0x6E, 0x20, 0x4C, 0x6F, 0x67, 0x69, 0x63, 0x29, 0x0A, 0x20, 0x20, 0x20, 0x20, 0x28, 0x4E0D,
      0x8981, 0x5355, 0x72EC, 0x63CF, 0x8FF0, 0x56FE, 0x41, 0x548C, 0x56FE, 0x42, 0x3002, 0x8BF7,
      0x5206, 0x6790, 0x5B83, 0x4EEC, 0x7684, 0x5173, 0x7CFB, 0xFF1A, 0x41, 0x56FE, 0x7684,
      0x4E0B, 0x8DCC, 0x662F, 0x5426, 0x5BFC, 0x81F4, 0x4E86, 0x42, 0x56FE, 0x7684, 0x4E0A,
      0x6DA8, 0xFF1F, 0x5B83, 0x4EEC, 0x662F, 0x5426, 0x53D7, 0x5230, 0x540C, 0x4E00, 0x4E2A,
      0x5B8F, 0x89C2, 0x56E0, 0x5B50, 0x7684, 0x9A71, 0x52A8, 0xFF1F, 0x29, 0x0A, 0x0A, 0x20,
      0x20, 0x20, 0x20, 0x23, 0x23, 0x23, 0x20, 0x33, 0x2E, 0x20, 0x5173, 0x952E, 0x6280, 0x672F,
      0x5F62, 0x6001, 0x4E0E, 0x641C, 0x7D22, 0x5370, 0x8BC1, 0x0A, 0x20, 0x20, 0x20, 0x20, 0x28,
      0x7ED3, 0x5408, 0x56FE, 0x8868, 0x4E2D, 0x7684, 0x652F, 0x6491, 0x2F, 0x963B, 0x529B,
      0x4F4D, 0xFF0C, 0x4EE5, 0x53CA, 0x641C, 0x7D22, 0x5230, 0x7684, 0x65B0, 0x95FB, 0x3002,
      0x4F8B, 0x5982, 0xFF1A, 0x201C, 0x56FE, 0x8868, 0x663E, 0x793A, 0x89E6, 0x53CA, 0x32, 0x30,
      0x30, 0x65E5, 0x5747, 0x7EBF, 0x53CD, 0x5F39, 0xFF0C, 0x4E14, 0x641C, 0x7D22, 0x663E,
      0x793A, 0x4ECA, 0x65E5, 0x521A, 0x597D, 0x516C, 0x5E03, 0x4E86, 0x5229, 0x597D, 0x7684,
      0x56DE, 0x8D2D, 0x8BA1, 0x5212, 0x3002, 0x201D, 0x29, 0x0A, 0x0A, 0x20, 0x20, 0x20, 0x20,
      0x23, 0x23, 0x23, 0x20, 0x34, 0x2E, 0x20, 0x4EA4, 0x6613, 0x5FC3, 0x7406, 0x4E0E, 0x7B56,
      0x7565, 0x5EFA, 0x8BAE, 0x0A, 0x20, 0x20, 0x20, 0x20, 0x28, 0x5F53, 0x524D, 0x5E02, 0x573A,
      0x60C5, 0x7EEA, 0x662F, 0x6050, 0x614C, 0x8FD8, 0x662F, 0x8D2A, 0x5A6A, 0xFF1F, 0x4E3B,
      0x529B, 0x5728, 0x6D17, 0x76D8, 0x8FD8, 0x662F, 0x51FA, 0x8D27, 0xFF1F, 0x29, 0x0A, 0x0A,
      0x20, 0x20, 0x20, 0x20, 0x6700, 0x540E, 0xFF0C, 0x8BF7, 0x52A1, 0x5FC5, 0x751F, 0x6210,
      0x20, 0x4A, 0x53, 0x4F, 0x4E, 0x20, 0x53EF, 0x89C6, 0x5316, 0x6570, 0x636E, 0x5757, 0x3002,
      0x0A, 0x20, 0x20]"

definition model_name :: jsstring where
  "model_name =
     [0x67, 0x65, 0x6D, 0x69, 0x6E, 0x69, 0x2D, 0x32, 0x2E, 0x35, 0x2D, 0x66, 0x6C, 0x61, 0x73,
      0x68]"

definition no_reply_text :: jsstring where
  "no_reply_text =
     [0x6211, 0x65E0, 0x6CD5, 0x751F, 0x6210, 0x56DE, 0x590D, 0x3002]"

definition chat_error_text :: jsstring where
  "chat_error_text =
     [0x62B1, 0x6B49, 0xFF0C, 0x9047, 0x5230, 0x9519, 0x8BEF, 0x3002, 0x8BF7, 0x91CD, 0x8BD5,
      0x3002]"

definition analysis_failed_notice :: jsstring where
  "analysis_failed_notice =
     [0x5206, 0x6790, 0x5931, 0x8D25, 0x3002, 0x8BF7, 0x68C0, 0x67E5, 0x60A8, 0x7684, 0x20, 0x41,
      0x50, 0x49, 0x20, 0x4B, 0x65, 0x79, 0x20, 0x548C, 0x7F51, 0x7EDC, 0x8FDE, 0x63A5, 0x3002]"

definition analysis_done_text :: jsstring where
  "analysis_done_text =
     [0x6211, 0x5DF2, 0x8BC6, 0x522B, 0x56FE, 0x8868, 0x5185, 0x5BB9, 0xFF0C, 0x5E76, 0x7ED3,
      0x5408, 0x6700, 0x65B0, 0x7684, 0x8054, 0x7F51, 0x641C, 0x7D22, 0x4FE1, 0x606F, 0x5B8C,
      0x6210, 0x4E86, 0x5173, 0x8054, 0x5206, 0x6790, 0x3002, 0x8BF7, 0x67E5, 0x770B, 0x4E2D,
      0x95F4, 0x7684, 0x8BE6, 0x7EC6, 0x62A5, 0x544A, 0x3002]"

definition analysis_id_prefix :: jsstring where
  "analysis_id_prefix =
     [0x61, 0x6E, 0x61, 0x6C, 0x79, 0x73, 0x69, 0x73, 0x2D]"

text \<open>\<^verbatim>\<open>String(n)\<close> for a non-negative integer: its decimal digits.\<close>

fun decimal :: "nat \<Rightarrow> jsstring" where
  "decimal n =
     (if n < 10 then [0x30 + of_nat n]
      else decimal (n div 10) @ [0x30 + of_nat (n mod 10)])"

declare decimal.simps [simp del]

definition prompt :: "nat \<Rightarrow> jsstring" where
  "prompt n = prompt_head @ decimal n @ prompt_tail"

text \<open>A string is truthy when it is neither \<^verbatim>\<open>undefined\<close> nor empty.\<close>

fun truthy_string :: "jsstring option \<Rightarrow> bool" where
  "truthy_string None = False"
| "truthy_string (Some s) = (s \<noteq> [])"

section \<open>Data model\<close>

text \<open>
  A \<^verbatim>\<open>File\<close> as far as the service reads it: its media type and what
  \<^verbatim>\<open>FileReader.readAsDataURL\<close> yields for it (\<open>None\<close> when the reader fires its error
  event).
\<close>

record image_file =
  file_type :: jsstring
  data_url :: "jsstring option"

record inline_data =
  data :: "jsstring option"
  mimeType :: jsstring

datatype part = InlineData inline_data | TextPart jsstring

datatype role = User | Model

record content =
  role :: role
  parts :: "part list"

datatype tool = GoogleSearch

record generate_request =
  req_model :: jsstring
  req_contents :: content
  req_systemInstruction :: jsstring
  req_tools :: "tool list"

text \<open>The response of the service, with every optional member as an option.\<close>

record web_source =
  uri :: "jsstring option"
  title :: "jsstring option"

record grounding_chunk =
  web :: "web_source option"

record grounding_metadata =
  groundingChunks :: "grounding_chunk list option"

record candidate =
  groundingMetadata :: "grounding_metadata option"

record generate_response =
  response_text :: "jsstring option"
  candidates :: "candidate list option"

record grounding_link =
  link_title :: jsstring
  link_url :: jsstring

text \<open>
  \<^verbatim>\<open>AnalysisResponse\<close> of \<^verbatim>\<open>types.ts\<close>. The type \<open>'v\<close> stands for the values
  \<^verbatim>\<open>JSON.parse\<close> produces: the source assigns the parsed value to
  \<^verbatim>\<open>visualizationData\<close> without inspecting its shape. \<open>None\<close> is the initial \<^verbatim>\<open>null\<close>.
\<close>

record 'v analysis_response =
  markdownReport :: jsstring
  visualizationData :: "'v option"
  groundingLinks :: "grounding_link list"

record chat_message =
  msg_id :: jsstring
  msg_role :: role
  msg_text :: jsstring
  msg_timestamp :: nat

text \<open>The chat session of the SDK: what \<^verbatim>\<open>ai.chats.create\<close> is given.\<close>

record chat =
  chat_model :: jsstring
  chat_systemInstruction :: jsstring
  chat_history :: "content list"

record genai =
  apiKey :: jsstring

text \<open>The two module-level variables of the service.\<close>

record module_state =
  chatInstance :: "chat option"
  genAIInstance :: "genai option"

datatype error =
    ApiKeyMissing
  | FileReadFailed
  | ServiceError jsstring

text \<open>
  What the code writes to the console and shows in a blocking \<^verbatim>\<open>alert\<close>, in the order
  it happens.
\<close>

datatype effect =
    LogParseFailure
  | LogAnalysisFailure error
  | LogChatFailure error
  | Alert jsstring

text \<open>
  The platform and the external service: \<^verbatim>\<open>process.env.API_KEY\<close>,
  \<^verbatim>\<open>ai.models.generateContent\<close>, \<^verbatim>\<open>chat.sendMessage\<close> (which returns the reply text and
  the session with its history advanced), \<^verbatim>\<open>JSON.parse\<close> (\<open>None\<close> when it throws) and
  the truthiness of a parsed value.
\<close>

record 'v env =
  api_key :: "jsstring option"
  generateContent :: "genai \<Rightarrow> generate_request \<Rightarrow> error + generate_response"
  sendMessage :: "chat \<Rightarrow> jsstring \<Rightarrow> error + (jsstring option \<times> chat)"
  json_parse :: "jsstring \<Rightarrow> 'v option"
  truthy :: "'v \<Rightarrow> bool"

section \<open>The service\<close>

subsection \<open>fileToPart\<close>

text \<open>\<^verbatim>\<open>s.split(',')\<close>: the pieces of \<open>s\<close> between the separators, at least one.\<close>

fun split_acc :: "16 word \<Rightarrow> jsstring \<Rightarrow> jsstring \<Rightarrow> jsstring list" where
  "split_acc c cur [] = [rev cur]"
| "split_acc c cur (x # xs) =
     (if x = c then rev cur # split_acc c [] xs else split_acc c (x # cur) xs)"

definition split :: "16 word \<Rightarrow> jsstring \<Rightarrow> jsstring list" where
  "split c s = split_acc c [] s"

text \<open>\<^verbatim>\<open>xs[1]\<close>, which is \<^verbatim>\<open>undefined\<close> when the array has fewer than two elements.\<close>

fun second :: "'a list \<Rightarrow> 'a option" where
  "second (x # y # ys) = Some y"
| "second xs = None"

definition fileToPart :: "image_file \<Rightarrow> error + inline_data" where
  "fileToPart f =
     (case data_url f of
        None \<Rightarrow> Inl FileReadFailed
      | Some result \<Rightarrow>
          Inr \<lparr>data = second (split 0x2C result), mimeType = file_type f\<rparr>)"

text \<open>
  \<^verbatim>\<open>Promise.all(files.map(fileToPart))\<close>: the parts in the order of the files, or a
  rejection when a file cannot be read.
\<close>

fun all_parts :: "image_file list \<Rightarrow> error + inline_data list" where
  "all_parts [] = Inr []"
| "all_parts (f # fs) =
     (case fileToPart f of
        Inl e \<Rightarrow> Inl e
      | Inr p \<Rightarrow> (case all_parts fs of Inl e \<Rightarrow> Inl e | Inr ps \<Rightarrow> Inr (p # ps)))"

subsection \<open>getAI\<close>

definition getAI :: "'v env \<Rightarrow> module_state \<Rightarrow> error + (genai \<times> module_state)" where
  "getAI env m =
     (case genAIInstance m of
        Some ai \<Rightarrow> Inr (ai, m)
      | None \<Rightarrow>
          (case api_key env of
             None \<Rightarrow> Inl ApiKeyMissing
           | Some k \<Rightarrow>
               if k = [] then Inl ApiKeyMissing
               else (let ai = \<lparr>apiKey = k\<rparr>
                     in Inr (ai, m\<lparr>genAIInstance := Some ai\<rparr>))))"

subsection \<open>analyzeMarketImages\<close>

definition request_parts :: "inline_data list \<Rightarrow> nat \<Rightarrow> part list" where
  "request_parts imageParts n = map InlineData imageParts @ [TextPart (prompt n)]"

definition analysis_request :: "inline_data list \<Rightarrow> nat \<Rightarrow> generate_request" where
  "analysis_request imageParts n =
     \<lparr>req_model = model_name,
      req_contents = \<lparr>role = User, parts = request_parts imageParts n\<rparr>,
      req_systemInstruction = SYSTEM_INSTRUCTION,
      req_tools = [GoogleSearch]\<rparr>"

text \<open>
  \<^verbatim>\<open>response.candidates?.[0]?.groundingMetadata?.groundingChunks || []\<close>
\<close>

definition grounding_chunks_of :: "generate_response \<Rightarrow> grounding_chunk list" where
  "grounding_chunks_of response =
     (case candidates response of
        None \<Rightarrow> []
      | Some [] \<Rightarrow> []
      | Some (c # cs) \<Rightarrow>
          (case groundingMetadata c of
             None \<Rightarrow> []
           | Some gm \<Rightarrow> (case groundingChunks gm of None \<Rightarrow> [] | Some chunks \<Rightarrow> chunks)))"

text \<open>
  The three stages of the source: \<^verbatim>\<open>map(chunk => chunk.web)\<close>, the filter
  \<^verbatim>\<open>web && web.uri && web.title\<close>, and the final \<^verbatim>\<open>map\<close> with its non-null
  assertions \<^verbatim>\<open>web!.title!\<close>, \<^verbatim>\<open>web!.uri!\<close>.
\<close>

definition web_ok :: "web_source option \<Rightarrow> bool" where
  "web_ok w =
     (case w of
        None \<Rightarrow> False
      | Some ws \<Rightarrow> truthy_string (uri ws) \<and> truthy_string (title ws))"

definition to_link :: "web_source option \<Rightarrow> grounding_link" where
  "to_link w = \<lparr>link_title = the (title (the w)), link_url = the (uri (the w))\<rparr>"

definition grounding_links_of :: "grounding_chunk list \<Rightarrow> grounding_link list" where
  "grounding_links_of chunks = map to_link (filter web_ok (map web chunks))"

text \<open>
  The response parser: the match, the guard \<^verbatim>\<open>jsonMatch && jsonMatch[1]\<close> (a match whose
  group is the empty string is skipped), \<^verbatim>\<open>JSON.parse\<close> inside \<^verbatim>\<open>try\<close>, and in the
  \<^verbatim>\<open>catch\<close> the console message. The result is the report, the visualization data and
  what was logged.
\<close>

definition parse_response ::
  "'v env \<Rightarrow> jsstring \<Rightarrow> jsstring \<times> 'v option \<times> effect list" where
  "parse_response env fullText =
     (case json_match fullText of
        None \<Rightarrow> (fullText, None, [])
      | Some (m0, m1) \<Rightarrow>
          if m1 = [] then (fullText, None, [])
          else
            (case json_parse env m1 of
               None \<Rightarrow> (fullText, None, [LogParseFailure])
             | Some v \<Rightarrow> (trim (replace_first m0 [] fullText), Some v, [])))"

definition analysis_chat :: "inline_data list \<Rightarrow> nat \<Rightarrow> jsstring \<Rightarrow> chat" where
  "analysis_chat imageParts n fullText =
     \<lparr>chat_model = model_name,
      chat_systemInstruction = SYSTEM_INSTRUCTION,
      chat_history =
        [\<lparr>role = User, parts = request_parts imageParts n\<rparr>,
         \<lparr>role = Model, parts = [TextPart fullText]\<rparr>]\<rparr>"

definition analyzeMarketImages ::
  "'v env \<Rightarrow> image_file list \<Rightarrow> module_state \<Rightarrow>
     (error + 'v analysis_response) \<times> module_state \<times> effect list" where
  "analyzeMarketImages env files m =
     (case getAI env m of
        Inl e \<Rightarrow> (Inl e, m, [])
      | Inr (ai, m1) \<Rightarrow>
          (case all_parts files of
             Inl e \<Rightarrow> (Inl e, m1, [])
           | Inr imageParts \<Rightarrow>
               (case generateContent env ai (analysis_request imageParts (length files)) of
                  Inl e \<Rightarrow> (Inl e, m1, [])
                | Inr response \<Rightarrow>
                    (let fullText = (case response_text response of
                                       None \<Rightarrow> [] | Some t \<Rightarrow> t);
                         links = grounding_links_of (grounding_chunks_of response);
                         (report, vis, logged) = parse_response env fullText
                     in (Inr \<lparr>markdownReport = report, visualizationData = vis,
                               groundingLinks = links\<rparr>,
                         m1\<lparr>chatInstance :=
                              Some (analysis_chat imageParts (length files) fullText)\<rparr>,
                         logged)))))"

subsection \<open>sendChatMessage\<close>

definition bare_chat :: chat where
  "bare_chat =
     \<lparr>chat_model = model_name, chat_systemInstruction = SYSTEM_INSTRUCTION,
      chat_history = []\<rparr>"

text \<open>
  The guard \<^verbatim>\<open>if (!chatInstance)\<close>: the session in use, created bare (no history) when
  there is none yet.
\<close>

definition ensure_chat :: "'v env \<Rightarrow> module_state \<Rightarrow> error + (chat \<times> module_state)" where
  "ensure_chat env m =
     (case chatInstance m of
        Some c \<Rightarrow> Inr (c, m)
      | None \<Rightarrow>
          (case getAI env m of
             Inl e \<Rightarrow> Inl e
           | Inr (ai, m1) \<Rightarrow> Inr (bare_chat, m1\<lparr>chatInstance := Some bare_chat\<rparr>)))"

definition sendChatMessage ::
  "'v env \<Rightarrow> jsstring \<Rightarrow> module_state \<Rightarrow> (error + jsstring) \<times> module_state" where
  "sendChatMessage env message m =
     (case ensure_chat env m of
        Inl e \<Rightarrow> (Inl e, m)
      | Inr (c, m2) \<Rightarrow>
          (case sendMessage env c message of
             Inl e \<Rightarrow> (Inl e, m2)
           | Inr (reply, c') \<Rightarrow>
               (Inr (case reply of
                       None \<Rightarrow> no_reply_text
                     | Some t \<Rightarrow> if t = [] then no_reply_text else t),
                m2\<lparr>chatInstance := Some c'\<rparr>)))"

section \<open>The application\<close>

datatype email_status = Idle | Sending | Sent

text \<open>The state variables of \<^verbatim>\<open>App\<close>.\<close>

record 'v app_state =
  images :: "image_file list"
  imagePreviews :: "jsstring list"
  analyzing :: bool
  analysisResult :: "'v analysis_response option"
  visualization :: 'v
  messages :: "chat_message list"
  dragActive :: bool
  email :: jsstring
  emailStatus :: email_status

text \<open>
  \<^verbatim>\<open>runAnalysis\<close>. The two readings of \<^verbatim>\<open>Date.now()\<close> are the arguments \<open>t1\<close> and
  \<open>t2\<close>. \<^verbatim>\<open>simulateEmailSend\<close> sets the status to \<^verbatim>\<open>sending\<close>; its timers fire after the
  handler has returned and are outside this function.
\<close>

definition runAnalysis ::
  "'v env \<Rightarrow> nat \<Rightarrow> nat \<Rightarrow> 'v app_state \<Rightarrow> module_state \<Rightarrow>
     'v app_state \<times> module_state \<times> effect list" where
  "runAnalysis env t1 t2 s m =
     (if images s = [] then (s, m, [])
      else
        (let s1 = s\<lparr>analyzing := True, analysisResult := None, emailStatus := Idle\<rparr>
         in case analyzeMarketImages env (images s) m of
              (Inr result, m', logged) \<Rightarrow>
                (let s2 = s1\<lparr>analysisResult := Some result\<rparr>;
                     s3 = (case visualizationData result of
                             None \<Rightarrow> s2
                           | Some v \<Rightarrow> if truthy env v then s2\<lparr>visualization := v\<rparr> else s2);
                     s4 = s3\<lparr>messages := messages s3 @
                             [\<lparr>msg_id = analysis_id_prefix @ decimal t1, msg_role = Model,
                               msg_text = analysis_done_text, msg_timestamp = t2\<rparr>]\<rparr>;
                     s5 = (if email s \<noteq> [] \<and> trim (email s) \<noteq> []
                           then s4\<lparr>emailStatus := Sending\<rparr> else s4)
                 in (s5\<lparr>analyzing := False\<rparr>, m', logged))
            | (Inl e, m', logged) \<Rightarrow>
                (s1\<lparr>analyzing := False\<rparr>, m',
                 logged @ [LogAnalysisFailure e, Alert analysis_failed_notice])))"

text \<open>
  \<^verbatim>\<open>handleSend\<close> of \<^verbatim>\<open>ChatInterface\<close>: the component's own state is the input box and
  the loading flag; the transcript belongs to \<^verbatim>\<open>App\<close>. The four readings of
  \<^verbatim>\<open>Date.now()\<close> are \<open>t1\<close> to \<open>t4\<close>.
\<close>

record chat_ui =
  input :: jsstring
  loading :: bool

definition handleSend ::
  "'v env \<Rightarrow> nat \<Rightarrow> nat \<Rightarrow> nat \<Rightarrow> nat \<Rightarrow> chat_ui \<Rightarrow> chat_message list \<Rightarrow> module_state \<Rightarrow>
     chat_ui \<times> chat_message list \<times> module_state \<times> effect list" where
  "handleSend env t1 t2 t3 t4 ui msgs m =
     (if trim (input ui) = [] \<or> loading ui then (ui, msgs, m, [])
      else
        (let userMsg = \<lparr>msg_id = decimal t1, msg_role = User, msg_text = input ui,
                        msg_timestamp = t2\<rparr>;
             msgs1 = msgs @ [userMsg];
             ui1 = ui\<lparr>input := [], loading := True\<rparr>
         in case sendChatMessage env (input ui) m of
              (Inr responseText, m') \<Rightarrow>
                (ui1\<lparr>loading := False\<rparr>,
                 msgs1 @ [\<lparr>msg_id = decimal (t3 + 1), msg_role = Model,
                           msg_text = responseText, msg_timestamp = t4\<rparr>],
                 m', [])
            | (Inl e, m') \<Rightarrow>
                (ui1\<lparr>loading := False\<rparr>,
                 msgs1 @ [\<lparr>msg_id = decimal (t3 + 1), msg_role = Model,
                           msg_text = chat_error_text, msg_timestamp = t4\<rparr>],
                 m', [LogChatFailure e])))"

section \<open>Visualization data\<close>

text \<open>
  \<^verbatim>\<open>SectorData\<close> and \<^verbatim>\<open>VisualizationData\<close> of \<^verbatim>\<open>types.ts\<close>, the shape the structured block
  is meant to have, with integers for the numbers; and \<^verbatim>\<open>INITIAL_VISUALIZATION_DATA\<close>,
  the neutral default the application starts from.
\<close>

datatype trend = Up | Down | Neutral

record SectorData =
  sector_name :: jsstring
  sector_trend :: trend
  sector_value :: int

record VisualizationData =
  sentimentScore :: int
  volatilityIndex :: int
  marketPhase :: jsstring
  keySectors :: "SectorData list"

definition INITIAL_VISUALIZATION_DATA :: VisualizationData where
  "INITIAL_VISUALIZATION_DATA =
     \<lparr>sentimentScore = 50, volatilityIndex = 30,
      marketPhase = [0x7B49, 0x5F85, 0x6570, 0x636E],
      keySectors =
        [\<lparr>sector_name = [0x79D1, 0x6280], sector_trend = Neutral, sector_value = 0\<rparr>,
         \<lparr>sector_name = [0x91D1, 0x878D], sector_trend = Neutral, sector_value = 0\<rparr>,
         \<lparr>sector_name = [0x80FD, 0x6E90], sector_trend = Neutral, sector_value = 0\<rparr>,
         \<lparr>sector_name = [0x533B, 0x7597], sector_trend = Neutral, sector_value = 0\<rparr>]\<rparr>"

section \<open>The citation filter as the specification words it\<close>

text \<open>
  A citation needs both a non-empty title and a non-empty address; a source that lacks
  either is dropped, and the others keep their order.
\<close>

fun well_formed_citations :: "grounding_chunk list \<Rightarrow> grounding_link list" where
  "well_formed_citations [] = []"
| "well_formed_citations (c # cs) =
     (case web c of
        None \<Rightarrow> well_formed_citations cs
      | Some w \<Rightarrow>
          (case (title w, uri w) of
             (Some t, Some u) \<Rightarrow>
               if t \<noteq> [] \<and> u \<noteq> []
               then \<lparr>link_title = t, link_url = u\<rparr> # well_formed_citations cs
               else well_formed_citations cs
           | _ \<Rightarrow> well_formed_citations cs))"

section \<open>An example run\<close>

text \<open>
  The sample scenario of the specification, used to instantiate the theorems below: the
  response text is \<open>sample_pre\<close> (\<^verbatim>\<open>### Summary\<close>, a line feed, \<^verbatim>\<open>Bullish.\<close>, two line
  feeds) followed by one fenced block whose body \<open>sample_body\<close> is the JSON text of
  \<open>sample_visualization\<close>; the expected report is \<open>sample_report\<close>. The remaining strings
  are \<^verbatim>\<open>Markup\<close>, \<^verbatim>\<open>Tech\<close>, a truncated body \<^verbatim>\<open>{"sentimentScore":\<close>, a second body
  \<^verbatim>\<open>{}\<close>, an API key, the question \<^verbatim>\<open>Why?\<close>, the media type \<^verbatim>\<open>image/png\<close>, a data URL
  \<^verbatim>\<open>data:image/png;base64,iVBORw0KGgo=\<close> with its payload, and the title and the address
  of a citation.
\<close>

definition sample_pre :: jsstring where
  "sample_pre =
     [0x23, 0x23, 0x23, 0x20, 0x53, 0x75, 0x6D, 0x6D, 0x61, 0x72, 0x79, 0x0A, 0x42, 0x75, 0x6C,
      0x6C, 0x69, 0x73, 0x68, 0x2E, 0x0A, 0x0A]"

definition sample_body :: jsstring where
  "sample_body =
     [0x7B, 0x22, 0x73, 0x65, 0x6E, 0x74, 0x69, 0x6D, 0x65, 0x6E, 0x74, 0x53, 0x63, 0x6F, 0x72,
      0x65, 0x22, 0x3A, 0x37, 0x32, 0x2C, 0x22, 0x76, 0x6F, 0x6C, 0x61, 0x74, 0x69, 0x6C, 0x69,
      0x74, 0x79, 0x49, 0x6E, 0x64, 0x65, 0x78, 0x22, 0x3A, 0x34, 0x30, 0x2C, 0x22, 0x6D, 0x61,
      0x72, 0x6B, 0x65, 0x74, 0x50, 0x68, 0x61, 0x73, 0x65, 0x22, 0x3A, 0x22, 0x4D, 0x61, 0x72,
      0x6B, 0x75, 0x70, 0x22, 0x2C, 0x22, 0x6B, 0x65, 0x79, 0x53, 0x65, 0x63, 0x74, 0x6F, 0x72,
      0x73, 0x22, 0x3A, 0x5B, 0x7B, 0x22, 0x6E, 0x61, 0x6D, 0x65, 0x22, 0x3A, 0x22, 0x54, 0x65,
      0x63, 0x68, 0x22, 0x2C, 0x22, 0x74, 0x72, 0x65, 0x6E, 0x64, 0x22, 0x3A, 0x22, 0x75, 0x70,
      0x22, 0x2C, 0x22, 0x76, 0x61, 0x6C, 0x75, 0x65, 0x22, 0x3A, 0x35, 0x35, 0x7D, 0x5D, 0x7D]"

definition sample_report :: jsstring where
  "sample_report =
     [0x23, 0x23, 0x23, 0x20, 0x53, 0x75, 0x6D, 0x6D, 0x61, 0x72, 0x79, 0x0A, 0x42, 0x75, 0x6C,
      0x6C, 0x69, 0x73, 0x68, 0x2E]"

definition sample_Markup :: jsstring where
  "sample_Markup =
     [0x4D, 0x61, 0x72, 0x6B, 0x75, 0x70]"

definition sample_Tech :: jsstring where
  "sample_Tech =
     [0x54, 0x65, 0x63, 0x68]"

definition sample_bad_body :: jsstring where
  "sample_bad_body =
     [0x7B, 0x22, 0x73, 0x65, 0x6E, 0x74, 0x69, 0x6D, 0x65, 0x6E, 0x74, 0x53, 0x63, 0x6F, 0x72,
      0x65, 0x22, 0x3A]"

definition sample_second_body :: jsstring where
  "sample_second_body =
     [0x7B, 0x7D]"

definition sample_key :: jsstring where
  "sample_key =
     [0x6B]"

definition sample_question :: jsstring where
  "sample_question =
     [0x57, 0x68, 0x79, 0x3F]"

definition sample_png :: jsstring where
  "sample_png =
     [0x69, 0x6D, 0x61, 0x67, 0x65, 0x2F, 0x70, 0x6E, 0x67]"

definition sample_data_url :: jsstring where
  "sample_data_url =
     [0x64, 0x61, 0x74, 0x61, 0x3A, 0x69, 0x6D, 0x61, 0x67, 0x65, 0x2F, 0x70, 0x6E, 0x67, 0x3B,
      0x62, 0x61, 0x73, 0x65, 0x36, 0x34, 0x2C, 0x69, 0x56, 0x42, 0x4F, 0x52, 0x77, 0x30, 0x4B,
      0x47, 0x67, 0x6F, 0x3D]"

definition sample_base64 :: jsstring where
  "sample_base64 =
     [0x69, 0x56, 0x42, 0x4F, 0x52, 0x77, 0x30, 0x4B, 0x47, 0x67, 0x6F, 0x3D]"

definition sample_title :: jsstring where
  "sample_title =
     [0x46, 0x65, 0x64]"

definition sample_url :: jsstring where
  "sample_url =
     [0x68, 0x74, 0x74, 0x70, 0x73, 0x3A, 0x2F, 0x2F, 0x61, 0x2E, 0x65, 0x78, 0x61, 0x6D, 0x70,
      0x6C, 0x65]"

definition sample_visualization :: VisualizationData where
  "sample_visualization =
     \<lparr>sentimentScore = 72, volatilityIndex = 40, marketPhase = sample_Markup,
      keySectors = [\<lparr>sector_name = sample_Tech, sector_trend = Up, sector_value = 55\<rparr>]\<rparr>"

definition sample_text :: jsstring where
  "sample_text = sample_pre @ fence_open @ sample_body @ fence_close"

text \<open>
  Five citation sources: a complete one, one without a title, one without a web source,
  one with an empty address, and another complete one.
\<close>

definition sample_chunks :: "grounding_chunk list" where
  "sample_chunks =
     [\<lparr>web = Some \<lparr>uri = Some sample_url, title = Some sample_title\<rparr>\<rparr>,
      \<lparr>web = Some \<lparr>uri = Some sample_url, title = None\<rparr>\<rparr>,
      \<lparr>web = None\<rparr>,
      \<lparr>web = Some \<lparr>uri = Some [], title = Some sample_title\<rparr>\<rparr>,
      \<lparr>web = Some \<lparr>uri = Some sample_url, title = Some sample_Tech\<rparr>\<rparr>]"

definition sample_response :: generate_response where
  "sample_response =
     \<lparr>response_text = Some sample_text,
      candidates = Some [\<lparr>groundingMetadata = Some \<lparr>groundingChunks = Some sample_chunks\<rparr>\<rparr>]\<rparr>"

text \<open>
  A platform for the example: the key is set, the analysis call answers with
  \<open>sample_response\<close>, the chat call echoes the question and records the turn, the decoder
  knows the one body of the sample, and every decoded value is an object, hence truthy.
  In \<open>failing_env\<close> both calls to the service fail.
\<close>

definition sample_env :: "VisualizationData env" where
  "sample_env =
     \<lparr>api_key = Some sample_key,
      generateContent = (\<lambda>ai request. Inr sample_response),
      sendMessage = (\<lambda>c message. Inr (Some message,
         c\<lparr>chat_history := chat_history c @
              [\<lparr>role = User, parts = [TextPart message]\<rparr>,
               \<lparr>role = Model, parts = [TextPart message]\<rparr>]\<rparr>)),
      json_parse = (\<lambda>s. if s = sample_body then Some sample_visualization else None),
      truthy = (\<lambda>v. True)\<rparr>"

definition failing_env :: "VisualizationData env" where
  "failing_env =
     sample_env\<lparr>generateContent := (\<lambda>ai request. Inl (ServiceError [])),
                sendMessage := (\<lambda>c message. Inl (ServiceError []))\<rparr>"

text \<open>In \<open>plain_env\<close> the analysis call answers with a text that holds no fenced block.\<close>

definition plain_env :: "VisualizationData env" where
  "plain_env =
     sample_env\<lparr>generateContent :=
       (\<lambda>ai request. Inr \<lparr>response_text = Some sample_pre, candidates = None\<rparr>)\<rparr>"

text \<open>
  In \<open>strict_env\<close> the analysis call answers only the request made of the two sample images
  followed by the instruction for two images, and fails on any other request. In
  \<open>silent_env\<close> the chat call succeeds with no reply text, and in \<open>empty_reply_env\<close> with
  the empty string as reply text.
\<close>

definition strict_env :: "VisualizationData env" where
  "strict_env =
     sample_env\<lparr>generateContent :=
       (\<lambda>ai request.
          if request =
               \<lparr>req_model = model_name,
                req_contents =
                  \<lparr>role = User,
                   parts = [InlineData \<lparr>data = Some sample_base64, mimeType = sample_png\<rparr>,
                            InlineData \<lparr>data = Some sample_base64, mimeType = sample_png\<rparr>,
                            TextPart (prompt 2)]\<rparr>,
                req_systemInstruction = SYSTEM_INSTRUCTION,
                req_tools = [GoogleSearch]\<rparr>
          then Inr sample_response else Inl (ServiceError []))\<rparr>"

definition silent_env :: "VisualizationData env" where
  "silent_env = sample_env\<lparr>sendMessage := (\<lambda>c message. Inr (None, c))\<rparr>"

definition empty_reply_env :: "VisualizationData env" where
  "empty_reply_env = sample_env\<lparr>sendMessage := (\<lambda>c message. Inr (Some [], c))\<rparr>"

definition sample_files :: "image_file list" where
  "sample_files =
     [\<lparr>file_type = sample_png, data_url = Some sample_data_url\<rparr>,
      \<lparr>file_type = sample_png, data_url = Some sample_data_url\<rparr>]"

definition fresh_module :: module_state where
  "fresh_module = \<lparr>chatInstance = None, genAIInstance = None\<rparr>"

text \<open>
  The application after an earlier run: two images loaded, a report on display, one
  transcript entry, and the email status \<^verbatim>\<open>sent\<close>.
\<close>

definition sample_state :: "VisualizationData app_state" where
  "sample_state =
     \<lparr>images = sample_files,
      imagePreviews = [sample_data_url, sample_data_url],
      analyzing = False,
      analysisResult =
        Some \<lparr>markdownReport = sample_report, visualizationData = None, groundingLinks = []\<rparr>,
      visualization = INITIAL_VISUALIZATION_DATA,
      messages =
        [\<lparr>msg_id = analysis_id_prefix @ decimal 7, msg_role = Model,
          msg_text = analysis_done_text, msg_timestamp = 7\<rparr>],
      dragActive = False,
      email = [],
      emailStatus = Sent\<rparr>"

section \<open>Properties of the matcher and of the string operations\<close>

lemma prefix_Cons_append:
  "prefix (a # as) (xs @ ys) \<longleftrightarrow>
     (case xs of [] \<Rightarrow> prefix (a # as) ys | x # xs' \<Rightarrow> a = x \<and> prefix as (xs' @ ys))"
  by (cases xs) auto

lemma fence_close_no_overlap:
  "prefix fence_close ((x # b) @ fence_close @ post) \<Longrightarrow> prefix fence_close (x # b)"
  by (auto simp: fence_close_def prefix_Cons_append split: list.splits)

lemma fence_open_no_overlap:
  "prefix fence_open ((x # p) @ fence_open @ r) \<Longrightarrow> prefix fence_open (x # p)"
  by (auto simp: fence_open_def prefix_Cons_append split: list.splits)

lemma lazy_group_complete:
  "\<not> sublist fence_close body \<Longrightarrow> lazy_group (body @ fence_close @ post) = Some body"
proof (induction body)
  case Nil
  then show ?case by (simp add: fence_close_def)
next
  case (Cons x b)
  then show ?case using fence_close_no_overlap[of x b post]
    by (auto simp: sublist_Cons_right)
qed

lemma lazy_group_sound:
  "lazy_group s = Some g \<Longrightarrow> \<exists>post. s = g @ fence_close @ post"
proof (induction s arbitrary: g)
  case Nil
  then show ?case by simp
next
  case (Cons x s)
  then show ?case
    by (auto simp: prefix_def split: if_splits)
qed

lemma match_here_block:
  assumes "\<not> sublist fence_close body"
  shows "match_here (fence_open @ body @ fence_close @ post) =
           Some (fence_open @ body @ fence_close, body)"
  using assms by (simp add: match_here_def lazy_group_complete)

lemma match_here_sound:
  "match_here s = Some (m0, m1) \<Longrightarrow>
     m0 = fence_open @ m1 @ fence_close \<and> (\<exists>post. s = m0 @ post)"
  by (auto simp: match_here_def prefix_def split: if_splits option.splits
           dest!: lazy_group_sound)

lemma json_match_block:
  assumes "\<not> sublist fence_open pre" and "\<not> sublist fence_close body"
  shows "json_match (pre @ fence_open @ body @ fence_close @ post) =
           Some (fence_open @ body @ fence_close, body)"
  using assms(1)
proof (induction pre)
  case Nil
  have "fence_open @ body @ fence_close @ post
          = 0x60 # tl (fence_open @ body @ fence_close @ post)"
    by (simp add: fence_open_def)
  then have "json_match (fence_open @ body @ fence_close @ post) =
          (case match_here (fence_open @ body @ fence_close @ post) of
             Some m \<Rightarrow> Some m
           | None \<Rightarrow> json_match (tl (fence_open @ body @ fence_close @ post)))"
    by (metis json_match.simps(2))
  then show ?case using match_here_block[OF assms(2)] by simp
next
  case (Cons x p)
  then have "\<not> prefix fence_open (x # p)" and np: "\<not> sublist fence_open p"
    by (auto simp: sublist_Cons_right)
  then have "\<not> prefix fence_open ((x # p) @ fence_open @ body @ fence_close @ post)"
    using fence_open_no_overlap by blast
  then have "match_here ((x # p) @ fence_open @ body @ fence_close @ post) = None"
    by (simp add: match_here_def)
  then show ?case using Cons.IH[OF np] by simp
qed

lemma json_match_sound:
  "json_match s = Some (m0, m1) \<Longrightarrow>
     \<exists>pre post. s = pre @ fence_open @ m1 @ fence_close @ post \<and>
                m0 = fence_open @ m1 @ fence_close"
proof (induction s)
  case Nil
  then show ?case by simp
next
  case (Cons x s)
  show ?case
  proof (cases "match_here (x # s)")
    case None
    with Cons.prems have "json_match s = Some (m0, m1)" by simp
    from Cons.IH[OF this] obtain pre post where
      "s = pre @ fence_open @ m1 @ fence_close @ post" "m0 = fence_open @ m1 @ fence_close"
      by blast
    then have "x # s = (x # pre) @ fence_open @ m1 @ fence_close @ post" by simp
    then show ?thesis using \<open>m0 = _\<close> by blast
  next
    case (Some m)
    with Cons.prems have "match_here (x # s) = Some (m0, m1)" by simp
    from match_here_sound[OF this] obtain post where
      "m0 = fence_open @ m1 @ fence_close" "x # s = m0 @ post" by blast
    then have "x # s = [] @ fence_open @ m1 @ fence_close @ post" by simp
    then show ?thesis using \<open>m0 = _\<close> by blast
  qed
qed

lemma json_match_None:
  "\<forall>pre body post. s \<noteq> pre @ fence_open @ body @ fence_close @ post \<Longrightarrow>
     json_match s = None"
proof (cases "json_match s")
  case None
  then show ?thesis .
next
  case (Some m)
  assume a: "\<forall>pre body post. s \<noteq> pre @ fence_open @ body @ fence_close @ post"
  obtain m0 m1 where "json_match s = Some (m0, m1)" using Some by (cases m) auto
  from json_match_sound[OF this] a show ?thesis by blast
qed

lemma replace_first_block:
  assumes "\<not> sublist fence_open pre"
  shows "replace_first (fence_open @ body @ fence_close) []
           (pre @ fence_open @ body @ fence_close @ post) = pre @ post"
  using assms
proof (induction pre)
  case Nil
  have "fence_open @ body @ fence_close @ post
          = 0x60 # tl (fence_open @ body @ fence_close @ post)"
    by (simp add: fence_open_def)
  then have "replace_first (fence_open @ body @ fence_close) []
               (fence_open @ body @ fence_close @ post) =
             (if prefix (fence_open @ body @ fence_close)
                   (fence_open @ body @ fence_close @ post)
              then [] @ drop (length (fence_open @ body @ fence_close))
                     (fence_open @ body @ fence_close @ post)
              else 0x60 # replace_first (fence_open @ body @ fence_close) []
                     (tl (fence_open @ body @ fence_close @ post)))"
    by (metis replace_first.simps(2))
  then show ?case by simp
next
  case (Cons x p)
  then have a: "\<not> prefix fence_open (x # p)" and np: "\<not> sublist fence_open p"
    by (auto simp: sublist_Cons_right)
  have "\<not> prefix (fence_open @ body @ fence_close)
            ((x # p) @ fence_open @ body @ fence_close @ post)"
  proof
    assume "prefix (fence_open @ body @ fence_close)
              ((x # p) @ fence_open @ body @ fence_close @ post)"
    then have "prefix fence_open ((x # p) @ fence_open @ body @ fence_close @ post)"
      using append_prefixD by blast
    then show False using a fence_open_no_overlap by blast
  qed
  then show ?case using Cons.IH[OF np] by simp
qed

lemma dropWhile_keeps:
  assumes "B \<noteq> []" and "\<not> P (hd B)"
  shows "\<exists>a'. dropWhile P (a @ B @ c) = a' @ B @ c"
proof (cases "\<forall>x\<in>set a. P x")
  case True
  from assms obtain h t where "B = h # t" "\<not> P h" by (cases B) auto
  then have "dropWhile P (a @ B @ c) = [] @ B @ c" using True
    by (simp add: dropWhile_append)
  then show ?thesis by blast
next
  case False
  then have "dropWhile P (a @ B @ c) = dropWhile P a @ B @ c"
    by (auto simp: dropWhile_append)
  then show ?thesis by blast
qed

lemma trim_keeps:
  assumes "B \<noteq> []" and "\<not> is_white_space (hd B)" and "\<not> is_white_space (last B)"
  shows "\<exists>a' c'. trim (a @ B @ c) = a' @ B @ c'"
proof -
  from dropWhile_keeps[of B is_white_space a c, OF assms(1,2)] obtain a' where
    1: "dropWhile is_white_space (a @ B @ c) = a' @ B @ c" by blast
  have "rev B \<noteq> []" "\<not> is_white_space (hd (rev B))"
    using assms by (auto simp: hd_rev)
  from dropWhile_keeps[of "rev B" is_white_space "rev c" "rev a'", OF this] obtain c' where
    2: "dropWhile is_white_space (rev c @ rev B @ rev a') = c' @ rev B @ rev a'" by blast
  have "trim (a @ B @ c) = a' @ B @ rev c'"
    unfolding trim_def 1 using 2 by simp
  then show ?thesis by blast
qed

lemma trim_keeps_block:
  "sublist (fence_open @ b @ fence_close) s \<Longrightarrow> sublist (fence_open @ b @ fence_close) (trim s)"
proof -
  assume "sublist (fence_open @ b @ fence_close) s"
  then obtain a c where s: "s = a @ (fence_open @ b @ fence_close) @ c"
    by (auto simp: sublist_def)
  have "fence_open @ b @ fence_close \<noteq> []"
       "\<not> is_white_space (hd (fence_open @ b @ fence_close))"
       "\<not> is_white_space (last (fence_open @ b @ fence_close))"
    by (simp_all add: fence_open_def fence_close_def is_white_space_def)
  from trim_keeps[of "fence_open @ b @ fence_close" a c, OF this] obtain a' c' where
    "trim s = a' @ (fence_open @ b @ fence_close) @ c'" unfolding s by blast
  then show ?thesis by (metis sublist_appendI)
qed

subsection \<open>Facts about the example\<close>

lemma sample_pre_no_open: "\<not> sublist fence_open sample_pre"
  by (simp add: sample_pre_def fence_open_def sublist_Cons_right)

lemma sample_body_no_close: "\<not> sublist fence_close sample_body"
  by (simp add: sample_body_def fence_close_def sublist_Cons_right)

lemma trim_sample_pre: "trim sample_pre = sample_report"
  by (simp add: trim_def sample_pre_def sample_report_def is_white_space_def)

lemma sample_parts:
  "all_parts sample_files =
     Inr [\<lparr>data = Some sample_base64, mimeType = sample_png\<rparr>,
          \<lparr>data = Some sample_base64, mimeType = sample_png\<rparr>]"
  by (simp add: sample_files_def fileToPart_def split_def sample_data_url_def
      sample_base64_def)

lemma no_reply_text_nonempty: "no_reply_text \<noteq> []"
  by (simp add: no_reply_text_def)

lemma chat_error_text_nonempty: "chat_error_text \<noteq> []"
  by (simp add: chat_error_text_def)

lemma sample_pre_no_block:
  "\<forall>pre body post. sample_pre \<noteq> pre @ fence_open @ body @ fence_close @ post"
proof (intro allI notI)
  fix pre body post
  assume e: "sample_pre = pre @ fence_open @ body @ fence_close @ post"
  have n: "0x60 \<notin> set sample_pre" by (simp add: sample_pre_def)
  have "0x60 \<in> set (pre @ fence_open @ body @ fence_close @ post)"
    by (simp add: fence_open_def)
  with n show False unfolding e[symmetric] by simp
qed

lemma getAI_fresh:
  "api_key env = Some sample_key \<Longrightarrow>
   getAI env fresh_module =
     Inr (\<lparr>apiKey = sample_key\<rparr>,
          \<lparr>chatInstance = None, genAIInstance = Some \<lparr>apiKey = sample_key\<rparr>\<rparr>)"
  by (simp add: getAI_def fresh_module_def sample_key_def Let_def)

lemma sample_parse_response:
  "parse_response sample_env sample_text = (sample_report, Some sample_visualization, [])"
proof -
  have "sample_body \<noteq> []" by (simp add: sample_body_def)
  moreover have "json_parse sample_env sample_body = Some sample_visualization"
    by (simp add: sample_env_def)
  ultimately show ?thesis
    using json_match_block[OF sample_pre_no_open sample_body_no_close, of "[]"]
      replace_first_block[OF sample_pre_no_open, of sample_body "[]"]
    by (simp add: parse_response_def sample_text_def trim_sample_pre)
qed

lemma sample_state_images: "images sample_state = sample_files"
  by (simp add: sample_state_def)

lemma sample_files_nonempty: "sample_files \<noteq> []"
  by (simp add: sample_files_def)

lemma sample_visualization_new: "sample_visualization \<noteq> INITIAL_VISUALIZATION_DATA"
  by (simp add: sample_visualization_def INITIAL_VISUALIZATION_DATA_def)

lemma sample_question_not_blank: "trim sample_question \<noteq> []"
  by (simp add: trim_def sample_question_def is_white_space_def)

lemma failing_analysis:
  "analyzeMarketImages failing_env sample_files fresh_module =
     (Inl (ServiceError []),
      \<lparr>chatInstance = None, genAIInstance = Some \<lparr>apiKey = sample_key\<rparr>\<rparr>, [])"
  by (simp add: analyzeMarketImages_def getAI_def fresh_module_def failing_env_def
      sample_env_def sample_key_def sample_parts Let_def)

subsection \<open>Facts about the service\<close>

lemma analyzeMarketImages_failure_logs:
  "analyzeMarketImages env files m = (Inl e, m', logged) \<Longrightarrow> logged = []"
  by (auto simp: analyzeMarketImages_def Let_def split: sum.splits prod.splits)

lemma analyzeMarketImages_success:
  assumes "getAI env m = Inr (ai, m1)"
    and "all_parts files = Inr imageParts"
    and "generateContent env ai (analysis_request imageParts (length files)) = Inr response"
    and "fullText = (case response_text response of None \<Rightarrow> [] | Some t \<Rightarrow> t)"
  shows "analyzeMarketImages env files m =
           (Inr \<lparr>markdownReport = fst (parse_response env fullText),
                 visualizationData = fst (snd (parse_response env fullText)),
                 groundingLinks = grounding_links_of (grounding_chunks_of response)\<rparr>,
            m1\<lparr>chatInstance := Some (analysis_chat imageParts (length files) fullText)\<rparr>,
            snd (snd (parse_response env fullText)))"
  using assms by (simp add: analyzeMarketImages_def Let_def split: prod.splits)

lemma parse_response_data:
  "fst (snd (parse_response env fullText)) = Some v \<Longrightarrow>
     \<exists>g0 g1. json_match fullText = Some (g0, g1) \<and> json_parse env g1 = Some v"
  by (auto simp: parse_response_def split: option.splits if_splits)

lemma parse_response_nothing:
  "json_match fullText = None \<or>
     (\<exists>g0 g1. json_match fullText = Some (g0, g1) \<and> json_parse env g1 = None) \<Longrightarrow>
   fst (parse_response env fullText) = fullText \<and>
   fst (snd (parse_response env fullText)) = None"
  by (auto simp: parse_response_def split: option.splits if_splits)

lemma all_parts_each:
  "all_parts files = Inr imageParts \<Longrightarrow>
     list_all2 (\<lambda>f p. mimeType p = file_type f \<and>
        (\<exists>url. data_url f = Some url \<and> data p = second (split 0x2C url))) files imageParts"
proof (induction files arbitrary: imageParts)
  case Nil
  then show ?case by simp
next
  case (Cons f fs)
  then show ?case
    by (auto simp: fileToPart_def split: sum.splits option.splits)
qed

lemma ensure_chat_session:
  "ensure_chat env m = Inr (c, m2) \<Longrightarrow>
     chatInstance m = Some c \<or> chatInstance m = None \<and> c = bare_chat"
  by (auto simp: ensure_chat_def split: option.splits sum.splits)

lemma parse_response_same_decoder:
  "json_parse env' = json_parse env \<Longrightarrow> parse_response env' t = parse_response env t"
  by (auto simp: parse_response_def split: option.splits)

lemma sample_links:
  "grounding_links_of (grounding_chunks_of sample_response) =
     [\<lparr>link_title = sample_title, link_url = sample_url\<rparr>,
      \<lparr>link_title = sample_Tech, link_url = sample_url\<rparr>]"
  by (simp add: grounding_chunks_of_def sample_response_def grounding_links_of_def
      sample_chunks_def web_ok_def to_link_def sample_url_def sample_title_def sample_Tech_def)

lemma ensure_chat_fresh:
  "api_key env = Some sample_key \<Longrightarrow>
   ensure_chat env fresh_module =
     Inr (bare_chat,
          \<lparr>chatInstance = Some bare_chat, genAIInstance = Some \<lparr>apiKey = sample_key\<rparr>\<rparr>)"
proof -
  assume k: "api_key env = Some sample_key"
  have c: "chatInstance fresh_module = None" by (simp add: fresh_module_def)
  show ?thesis by (simp add: ensure_chat_def c getAI_fresh[OF k])
qed

section \<open>The response parser\<close>

text \<open>
  Claim C1. A response text that consists of a prefix free of the opening fence, one
  well-formed fenced block (the opening fence, a body, the closing fence on a line of
  its own, so that the body runs up to the first closing fence) and any remainder, and
  whose body decodes (a body that decodes is not empty), is parsed to the decoded value as
  \<^verbatim>\<open>visualizationData\<close> and to the text without the block and its two fences, trimmed
  of surrounding white space, as \<^verbatim>\<open>markdownReport\<close>. Nothing is logged.
\<close>

theorem parse_response_round_trip:
  assumes "\<not> sublist fence_open pre" and "\<not> sublist fence_close body"
    and "body \<noteq> []" and "json_parse env body = Some v"
  shows "parse_response env (pre @ fence_open @ body @ fence_close @ post) =
           (trim (pre @ post), Some v, [])"
  using assms
  by (simp add: parse_response_def json_match_block replace_first_block)

text \<open>
  The sample scenario of the specification: the report is \<^verbatim>\<open>### Summary\<close>, a line feed
  and \<^verbatim>\<open>Bullish.\<close>, and the visualization is the decoded object.
\<close>

theorem parse_response_round_trip_witness:
  "parse_response sample_env sample_text = (sample_report, Some sample_visualization, [])"
proof -
  have 1: "sample_body \<noteq> []" by (simp add: sample_body_def)
  have 2: "json_parse sample_env sample_body = Some sample_visualization"
    by (simp add: sample_env_def)
  show ?thesis
    using parse_response_round_trip[OF sample_pre_no_open sample_body_no_close 1 2, of "[]"]
    by (simp add: sample_text_def trim_sample_pre)
qed

text \<open>
  Claim C5. When the text holds further fenced blocks after the first one, only the first
  is looked at: the visualization data is what decoding the first body gives (nothing
  when that body is empty or does not decode, whatever the later blocks hold), the
  report is the text without the first block, trimmed, when the first body decoded and
  the untouched text otherwise, and every later block stands in the report verbatim.
\<close>

theorem parse_response_first_block_only:
  assumes "\<not> sublist fence_open pre" and "\<not> sublist fence_close body1"
    and "parse_response env (pre @ fence_open @ body1 @ fence_close @ rest) =
           (report, vis, logged)"
  shows "vis = (if body1 = [] then None else json_parse env body1) \<and>
         report = (if vis = None then pre @ fence_open @ body1 @ fence_close @ rest
                   else trim (pre @ rest)) \<and>
         (\<forall>body2. sublist (fence_open @ body2 @ fence_close) rest \<longrightarrow>
                  sublist (fence_open @ body2 @ fence_close) report)"
proof -
  have m: "json_match (pre @ fence_open @ body1 @ fence_close @ rest) =
             Some (fence_open @ body1 @ fence_close, body1)"
    using assms(1,2) by (rule json_match_block)
  have r: "replace_first (fence_open @ body1 @ fence_close) []
             (pre @ fence_open @ body1 @ fence_close @ rest) = pre @ rest"
    using assms(1) by (rule replace_first_block)
  have v: "vis = (if body1 = [] then None else json_parse env body1)"
    using assms(3) by (auto simp: parse_response_def m split: option.splits if_splits)
  have rep: "report = (if vis = None then pre @ fence_open @ body1 @ fence_close @ rest
                   else trim (pre @ rest))"
    using assms(3) by (auto simp: parse_response_def m r split: option.splits if_splits)
  have "sublist (fence_open @ body2 @ fence_close) report"
    if b: "sublist (fence_open @ body2 @ fence_close) rest" for body2
  proof (cases "vis = None")
    case True
    then have "report = (pre @ fence_open @ body1 @ fence_close) @ rest" using rep by simp
    then show ?thesis using b by (metis sublist_append)
  next
    case False
    have "sublist (fence_open @ body2 @ fence_close) (pre @ rest)"
      using b by (metis sublist_append)
    then show ?thesis using rep False by (simp add: trim_keeps_block)
  qed
  then show ?thesis using v rep by blast
qed

theorem parse_response_first_block_only_witness:
  "parse_response sample_env
     (sample_pre @ fence_open @ sample_body @ fence_close @
      0x0A # fence_open @ sample_second_body @ fence_close) =
     (sample_report @ 0x0A # 0x0A # 0x0A # fence_open @ sample_second_body @ fence_close,
      Some sample_visualization, []) \<and>
   sublist (fence_open @ sample_second_body @ fence_close)
     (sample_report @ 0x0A # 0x0A # 0x0A # fence_open @ sample_second_body @ fence_close)"
proof -
  define rest where "rest = 0x0A # fence_open @ sample_second_body @ fence_close"
  obtain report vis logged where
    p: "parse_response sample_env (sample_pre @ fence_open @ sample_body @ fence_close @ rest)
          = (report, vis, logged)"
    using prod_cases3 by blast
  have j: "json_parse sample_env sample_body = Some sample_visualization"
    by (simp add: sample_env_def)
  have nb: "sample_body \<noteq> []" by (simp add: sample_body_def)
  note t = parse_response_first_block_only[OF sample_pre_no_open sample_body_no_close p]
  from t have v: "vis = Some sample_visualization" using j nb by simp
  from t v have r: "report = trim (sample_pre @ rest)" by simp
  have s: "sublist (fence_open @ sample_second_body @ fence_close) rest"
    unfolding rest_def by (metis append_Cons append_Nil sublist_append_leftI)
  from t s have e: "sublist (fence_open @ sample_second_body @ fence_close) report" by blast
  have l: "logged = []"
    using p j nb by (simp add: parse_response_def
        json_match_block[OF sample_pre_no_open sample_body_no_close])
  have tr: "trim (sample_pre @ rest) =
      sample_report @ 0x0A # 0x0A # 0x0A # fence_open @ sample_second_body @ fence_close"
    by (simp add: trim_def rest_def sample_pre_def sample_report_def fence_open_def
        fence_close_def sample_second_body_def is_white_space_def)
  show ?thesis using p v r e l tr by (simp add: rest_def)
qed

text \<open>
  Claim C6, as amended. When the body of the first fenced block does not decode, the
  parser returns no visualization data and the original text untouched as the report; it
  logs the failure when the body is not empty, and logs nothing when the body is empty,
  because the guard \<^verbatim>\<open>jsonMatch[1]\<close> skips the decoding of an empty group.
\<close>

theorem parse_response_invalid_body:
  assumes "\<not> sublist fence_open pre" and "\<not> sublist fence_close body"
    and "json_parse env body = None"
  shows "parse_response env (pre @ fence_open @ body @ fence_close @ post) =
           (pre @ fence_open @ body @ fence_close @ post, None,
            if body = [] then [] else [LogParseFailure])"
  using assms
  by (simp add: parse_response_def json_match_block)

theorem parse_response_invalid_body_witness:
  "parse_response sample_env (sample_pre @ fence_open @ sample_bad_body @ fence_close) =
     (sample_pre @ fence_open @ sample_bad_body @ fence_close, None, [LogParseFailure])"
proof -
  have 1: "\<not> sublist fence_close sample_bad_body"
    by (simp add: sample_bad_body_def fence_close_def sublist_Cons_right)
  have 2: "json_parse sample_env sample_bad_body = None"
    by (simp add: sample_env_def sample_bad_body_def sample_body_def)
  have 3: "sample_bad_body \<noteq> []" by (simp add: sample_bad_body_def)
  show ?thesis
    using parse_response_invalid_body[OF sample_pre_no_open 1 2, of "[]"] 3 by simp
qed

text \<open>
  The claim as first stated has the failure logged for every body that is not valid
  structured data. The empty body is not valid (the decoder rejects it), yet for the text
  made of the two fences alone nothing is logged.
\<close>

theorem parse_response_empty_body_counterexample:
  "json_parse sample_env [] = None \<and>
   parse_response sample_env (fence_open @ [] @ fence_close) =
     (fence_open @ [] @ fence_close, None, [])"
  by (simp add: sample_env_def sample_body_def parse_response_def match_here_def
      fence_open_def fence_close_def)

text \<open>
  Claim C7. A response text that contains no fenced block at all (it cannot be split into
  a prefix, the opening fence, a body, the closing fence and a remainder) is returned
  verbatim as the report, without trimming, with no visualization data.
\<close>

theorem parse_response_no_block:
  assumes "\<forall>pre body post. fullText \<noteq> pre @ fence_open @ body @ fence_close @ post"
  shows "parse_response env fullText = (fullText, None, [])"
proof (cases "json_match fullText")
  case None
  then show ?thesis by (simp add: parse_response_def)
next
  case (Some m)
  then obtain m0 m1 where "json_match fullText = Some (m0, m1)" by (cases m) auto
  from json_match_sound[OF this] assms show ?thesis by blast
qed

theorem parse_response_no_block_witness:
  "parse_response sample_env sample_pre = (sample_pre, None, [])"
  using parse_response_no_block[OF sample_pre_no_block] .

section \<open>Grounding links and the request\<close>

text \<open>
  Claim C8. The grounding links the service produces from a list of citation sources are
  exactly the sources that have both a non-empty title and a non-empty address, in their
  original order; all others are dropped.
\<close>

theorem grounding_links_filtered:
  "grounding_links_of chunks = well_formed_citations chunks"
proof (induction chunks)
  case Nil
  then show ?case by (simp add: grounding_links_of_def)
next
  case (Cons c cs)
  then show ?case
    by (cases "web c"; cases "title (the (web c))"; cases "uri (the (web c))")
       (simp_all add: grounding_links_of_def web_ok_def to_link_def)
qed

theorem grounding_links_filtered_witness:
  "grounding_links_of sample_chunks =
     [\<lparr>link_title = sample_title, link_url = sample_url\<rparr>,
      \<lparr>link_title = sample_Tech, link_url = sample_url\<rparr>]"
  using grounding_links_filtered[of sample_chunks]
  by (simp add: sample_chunks_def sample_url_def sample_title_def sample_Tech_def)

text \<open>
  Claim C9. When the service client is available and every image file has been read,
  \<^verbatim>\<open>analyzeMarketImages\<close> sends exactly one request to the service, and its outcome is
  what the service makes of that request. The parts of the request are one inline-data
  part per image, in the order of the images, each tagged with the media type of its file
  and carrying the payload of its data URL, followed by exactly one text part with the
  instruction; the number of parts is the number of images plus one.
\<close>

theorem analyzeMarketImages_request:
  assumes "getAI env m = Inr (ai, m1)" and "all_parts files = Inr imageParts"
  shows "analyzeMarketImages env files m =
           (case generateContent env ai
                   \<lparr>req_model = model_name,
                    req_contents =
                      \<lparr>role = User,
                       parts = map InlineData imageParts @ [TextPart (prompt (length files))]\<rparr>,
                    req_systemInstruction = SYSTEM_INSTRUCTION,
                    req_tools = [GoogleSearch]\<rparr> of
              Inl e \<Rightarrow> (Inl e, m1, [])
            | Inr response \<Rightarrow>
                (Inr \<lparr>markdownReport =
                        fst (parse_response env
                          (case response_text response of None \<Rightarrow> [] | Some t \<Rightarrow> t)),
                      visualizationData =
                        fst (snd (parse_response env
                          (case response_text response of None \<Rightarrow> [] | Some t \<Rightarrow> t))),
                      groundingLinks = grounding_links_of (grounding_chunks_of response)\<rparr>,
                 m1\<lparr>chatInstance := Some (analysis_chat imageParts (length files)
                          (case response_text response of None \<Rightarrow> [] | Some t \<Rightarrow> t))\<rparr>,
                 snd (snd (parse_response env
                          (case response_text response of None \<Rightarrow> [] | Some t \<Rightarrow> t))))) \<and>
         length (map InlineData imageParts @ [TextPart (prompt (length files))]) =
           length files + 1 \<and>
         list_all2 (\<lambda>f p. mimeType p = file_type f \<and>
            (\<exists>url. data_url f = Some url \<and> data p = second (split 0x2C url)))
           files imageParts"
proof -
  note e = all_parts_each[OF assms(2)]
  have l: "length imageParts = length files"
    using e by (auto dest: list_all2_lengthD)
  have a: "analysis_request imageParts (length files) =
      \<lparr>req_model = model_name,
       req_contents =
         \<lparr>role = User,
          parts = map InlineData imageParts @ [TextPart (prompt (length files))]\<rparr>,
       req_systemInstruction = SYSTEM_INSTRUCTION,
       req_tools = [GoogleSearch]\<rparr>"
    by (simp add: analysis_request_def request_parts_def)
  have "analyzeMarketImages env files m =
           (case generateContent env ai (analysis_request imageParts (length files)) of
              Inl e \<Rightarrow> (Inl e, m1, [])
            | Inr response \<Rightarrow>
                (Inr \<lparr>markdownReport =
                        fst (parse_response env
                          (case response_text response of None \<Rightarrow> [] | Some t \<Rightarrow> t)),
                      visualizationData =
                        fst (snd (parse_response env
                          (case response_text response of None \<Rightarrow> [] | Some t \<Rightarrow> t))),
                      groundingLinks = grounding_links_of (grounding_chunks_of response)\<rparr>,
                 m1\<lparr>chatInstance := Some (analysis_chat imageParts (length files)
                          (case response_text response of None \<Rightarrow> [] | Some t \<Rightarrow> t))\<rparr>,
                 snd (snd (parse_response env
                          (case response_text response of None \<Rightarrow> [] | Some t \<Rightarrow> t)))))"
    using assms by (simp add: analyzeMarketImages_def Let_def split: sum.splits prod.splits)
  then show ?thesis using e l unfolding a by simp
qed

text \<open>
  In the example the service answers this request alone: the run succeeds, so the request
  sent for the two sample images is the two inline parts followed by the instruction.
\<close>

theorem analyzeMarketImages_request_witness:
  "analyzeMarketImages strict_env sample_files fresh_module =
     (Inr \<lparr>markdownReport = sample_report, visualizationData = Some sample_visualization,
           groundingLinks =
             [\<lparr>link_title = sample_title, link_url = sample_url\<rparr>,
              \<lparr>link_title = sample_Tech, link_url = sample_url\<rparr>]\<rparr>,
      \<lparr>chatInstance = Some (analysis_chat
          [\<lparr>data = Some sample_base64, mimeType = sample_png\<rparr>,
           \<lparr>data = Some sample_base64, mimeType = sample_png\<rparr>] 2 sample_text),
       genAIInstance = Some \<lparr>apiKey = sample_key\<rparr>\<rparr>,
      []) \<and>
   length (map InlineData
      [\<lparr>data = Some sample_base64, mimeType = sample_png\<rparr>,
       \<lparr>data = Some sample_base64, mimeType = sample_png\<rparr>] @ [TextPart (prompt 2)]) = 3"
proof -
  have g: "getAI strict_env fresh_module =
     Inr (\<lparr>apiKey = sample_key\<rparr>,
          \<lparr>chatInstance = None, genAIInstance = Some \<lparr>apiKey = sample_key\<rparr>\<rparr>)"
    by (rule getAI_fresh) (simp add: strict_env_def sample_env_def)
  have n: "length sample_files = 2" by (simp add: sample_files_def)
  have c: "generateContent strict_env \<lparr>apiKey = sample_key\<rparr>
      \<lparr>req_model = model_name,
       req_contents =
         \<lparr>role = User,
          parts = map InlineData
              [\<lparr>data = Some sample_base64, mimeType = sample_png\<rparr>,
               \<lparr>data = Some sample_base64, mimeType = sample_png\<rparr>] @
            [TextPart (prompt 2)]\<rparr>,
       req_systemInstruction = SYSTEM_INSTRUCTION,
       req_tools = [GoogleSearch]\<rparr> = Inr sample_response"
    by (simp add: strict_env_def)
  have t: "(case response_text sample_response of None \<Rightarrow> [] | Some t \<Rightarrow> t) = sample_text"
    by (simp add: sample_response_def)
  have p: "parse_response strict_env sample_text =
      (sample_report, Some sample_visualization, [])"
    using parse_response_same_decoder[of strict_env sample_env sample_text]
    by (simp add: strict_env_def sample_parse_response)
  note r = analyzeMarketImages_request[OF g sample_parts, unfolded n c]
  from r[THEN conjunct1] r[THEN conjunct2, THEN conjunct1] show ?thesis
    by (simp add: t p sample_links n)
qed

section \<open>Chat\<close>

text \<open>
  Claim C10. A chat call succeeds exactly when a session is at hand and the service
  answers. It then returns a non-empty string: the reply text of the service, or the
  fixed string \<open>no_reply_text\<close> when the reply text is absent or empty.
\<close>

theorem sendChatMessage_reply:
  "(\<forall>c m2 reply c'.
      ensure_chat env m = Inr (c, m2) \<and> sendMessage env c message = Inr (reply, c') \<longrightarrow>
      sendChatMessage env message m =
        (Inr (case reply of
                None \<Rightarrow> no_reply_text
              | Some t \<Rightarrow> if t = [] then no_reply_text else t),
         m2\<lparr>chatInstance := Some c'\<rparr>) \<and>
      (case reply of
         None \<Rightarrow> no_reply_text
       | Some t \<Rightarrow> if t = [] then no_reply_text else t) \<noteq> []) \<and>
   (\<forall>r m'.
      sendChatMessage env message m = (Inr r, m') \<longrightarrow>
      r \<noteq> [] \<and>
      (\<exists>c m2 reply c'.
         ensure_chat env m = Inr (c, m2) \<and> sendMessage env c message = Inr (reply, c') \<and>
         (chatInstance m = Some c \<or> chatInstance m = None \<and> c = bare_chat) \<and>
         m' = m2\<lparr>chatInstance := Some c'\<rparr> \<and>
         r = (case reply of
                None \<Rightarrow> no_reply_text
              | Some t \<Rightarrow> if t = [] then no_reply_text else t)))"
proof (intro conjI allI impI)
  fix c m2 reply c'
  assume a: "ensure_chat env m = Inr (c, m2) \<and> sendMessage env c message = Inr (reply, c')"
  then show "sendChatMessage env message m =
        (Inr (case reply of
                None \<Rightarrow> no_reply_text
              | Some t \<Rightarrow> if t = [] then no_reply_text else t),
         m2\<lparr>chatInstance := Some c'\<rparr>)"
    by (simp add: sendChatMessage_def)
  show "(case reply of
         None \<Rightarrow> no_reply_text
       | Some t \<Rightarrow> if t = [] then no_reply_text else t) \<noteq> []"
    using no_reply_text_nonempty by (auto split: option.splits)
next
  fix r m'
  assume s: "sendChatMessage env message m = (Inr r, m')"
  then obtain c m2 where e: "ensure_chat env m = Inr (c, m2)"
    by (auto simp: sendChatMessage_def split: sum.splits)
  with s obtain reply c' where sm: "sendMessage env c message = Inr (reply, c')"
    by (auto simp: sendChatMessage_def split: sum.splits)
  from s e sm have r: "r = (case reply of
                   None \<Rightarrow> no_reply_text
                 | Some t \<Rightarrow> if t = [] then no_reply_text else t)"
    and m': "m' = m2\<lparr>chatInstance := Some c'\<rparr>"
    by (auto simp: sendChatMessage_def)
  from r show "r \<noteq> []"
    using no_reply_text_nonempty by (auto split: option.splits)
  show "\<exists>c m2 reply c'.
         ensure_chat env m = Inr (c, m2) \<and> sendMessage env c message = Inr (reply, c') \<and>
         (chatInstance m = Some c \<or> chatInstance m = None \<and> c = bare_chat) \<and>
         m' = m2\<lparr>chatInstance := Some c'\<rparr> \<and>
         r = (case reply of
                None \<Rightarrow> no_reply_text
              | Some t \<Rightarrow> if t = [] then no_reply_text else t)"
    using ensure_chat_session[OF e] e sm r m' by blast
qed

text \<open>
  An absent reply text and an empty one both give \<open>no_reply_text\<close>; a reply text that is
  not empty is returned as it is.
\<close>

theorem sendChatMessage_reply_witness:
  "sendChatMessage silent_env sample_question fresh_module =
     (Inr no_reply_text,
      \<lparr>chatInstance = Some bare_chat, genAIInstance = Some \<lparr>apiKey = sample_key\<rparr>\<rparr>) \<and>
   sendChatMessage empty_reply_env sample_question fresh_module =
     (Inr no_reply_text,
      \<lparr>chatInstance = Some bare_chat, genAIInstance = Some \<lparr>apiKey = sample_key\<rparr>\<rparr>) \<and>
   sendChatMessage sample_env sample_question fresh_module =
     (Inr sample_question,
      \<lparr>chatInstance = Some (bare_chat\<lparr>chat_history :=
          [\<lparr>role = User, parts = [TextPart sample_question]\<rparr>,
           \<lparr>role = Model, parts = [TextPart sample_question]\<rparr>]\<rparr>),
       genAIInstance = Some \<lparr>apiKey = sample_key\<rparr>\<rparr>) \<and>
   no_reply_text \<noteq> [] \<and> sample_question \<noteq> []"
proof -
  have q: "sample_question \<noteq> []" by (simp add: sample_question_def)
  have e1: "ensure_chat silent_env fresh_module =
     Inr (bare_chat,
          \<lparr>chatInstance = Some bare_chat, genAIInstance = Some \<lparr>apiKey = sample_key\<rparr>\<rparr>)"
    by (rule ensure_chat_fresh) (simp add: silent_env_def sample_env_def)
  have s1: "sendMessage silent_env bare_chat sample_question = Inr (None, bare_chat)"
    by (simp add: silent_env_def)
  from sendChatMessage_reply[of silent_env fresh_module sample_question, THEN conjunct1,
      rule_format, OF conjI, OF e1 s1]
  have a: "sendChatMessage silent_env sample_question fresh_module =
     (Inr no_reply_text,
      \<lparr>chatInstance = Some bare_chat, genAIInstance = Some \<lparr>apiKey = sample_key\<rparr>\<rparr>) \<and>
     no_reply_text \<noteq> []"
    by simp
  have e2: "ensure_chat empty_reply_env fresh_module =
     Inr (bare_chat,
          \<lparr>chatInstance = Some bare_chat, genAIInstance = Some \<lparr>apiKey = sample_key\<rparr>\<rparr>)"
    by (rule ensure_chat_fresh) (simp add: empty_reply_env_def sample_env_def)
  have s2: "sendMessage empty_reply_env bare_chat sample_question = Inr (Some [], bare_chat)"
    by (simp add: empty_reply_env_def)
  from sendChatMessage_reply[of empty_reply_env fresh_module sample_question, THEN conjunct1,
      rule_format, OF conjI, OF e2 s2]
  have b: "sendChatMessage empty_reply_env sample_question fresh_module =
     (Inr no_reply_text,
      \<lparr>chatInstance = Some bare_chat, genAIInstance = Some \<lparr>apiKey = sample_key\<rparr>\<rparr>)"
    by simp
  have e3: "ensure_chat sample_env fresh_module =
     Inr (bare_chat,
          \<lparr>chatInstance = Some bare_chat, genAIInstance = Some \<lparr>apiKey = sample_key\<rparr>\<rparr>)"
    by (rule ensure_chat_fresh) (simp add: sample_env_def)
  have s3: "sendMessage sample_env bare_chat sample_question =
     Inr (Some sample_question, bare_chat\<lparr>chat_history :=
          [\<lparr>role = User, parts = [TextPart sample_question]\<rparr>,
           \<lparr>role = Model, parts = [TextPart sample_question]\<rparr>]\<rparr>)"
    by (simp add: sample_env_def bare_chat_def)
  from sendChatMessage_reply[of sample_env fresh_module sample_question, THEN conjunct1,
      rule_format, OF conjI, OF e3 s3]
  have c: "sendChatMessage sample_env sample_question fresh_module =
     (Inr sample_question,
      \<lparr>chatInstance = Some (bare_chat\<lparr>chat_history :=
          [\<lparr>role = User, parts = [TextPart sample_question]\<rparr>,
           \<lparr>role = Model, parts = [TextPart sample_question]\<rparr>]\<rparr>),
       genAIInstance = Some \<lparr>apiKey = sample_key\<rparr>\<rparr>)"
    using q by simp
  from a b c q show ?thesis by blast
qed

text \<open>
  Claim C4, as amended. Before any analysis has run there is no session. A question that
  is not blank, sent while no chat call is outstanding, always completes
  \<^verbatim>\<open>handleSend\<close>: the transcript grows by the question and by one entry of the model
  whose text is not empty. \<^verbatim>\<open>sendChatMessage\<close> creates a bare session (no history) when
  the service client can be had, and returns the reply, or \<open>no_reply_text\<close> for an absent
  or empty reply. When the client cannot be had or the service fails,
  \<^verbatim>\<open>sendChatMessage\<close> throws to its call site; \<^verbatim>\<open>handleSend\<close> catches the error there, logs
  it and appends the fixed entry \<open>chat_error_text\<close>.
\<close>

theorem chat_before_analysis:
  assumes "chatInstance m = None" and "trim (input ui) \<noteq> []" and "\<not> loading ui"
  shows "\<exists>reply m' logged.
     handleSend env t1 t2 t3 t4 ui msgs m =
       (ui\<lparr>input := [], loading := False\<rparr>,
        msgs @ [\<lparr>msg_id = decimal t1, msg_role = User, msg_text = input ui,
                  msg_timestamp = t2\<rparr>,
                 \<lparr>msg_id = decimal (t3 + 1), msg_role = Model, msg_text = reply,
                  msg_timestamp = t4\<rparr>],
        m', logged) \<and>
     reply \<noteq> [] \<and>
     (case getAI env m of
        Inl e \<Rightarrow>
          sendChatMessage env (input ui) m = (Inl e, m') \<and>
          reply = chat_error_text \<and> m' = m \<and> logged = [LogChatFailure e]
      | Inr (ai, m1) \<Rightarrow>
          (case sendMessage env bare_chat (input ui) of
             Inl e \<Rightarrow>
               sendChatMessage env (input ui) m = (Inl e, m') \<and>
               reply = chat_error_text \<and> m' = m1\<lparr>chatInstance := Some bare_chat\<rparr> \<and>
               logged = [LogChatFailure e]
           | Inr (r, c') \<Rightarrow>
               sendChatMessage env (input ui) m = (Inr reply, m') \<and>
               reply = (case r of
                          None \<Rightarrow> no_reply_text
                        | Some t \<Rightarrow> if t = [] then no_reply_text else t) \<and>
               m' = m1\<lparr>chatInstance := Some c'\<rparr> \<and> logged = []))"
  using assms no_reply_text_nonempty chat_error_text_nonempty
  by (auto simp: handleSend_def sendChatMessage_def ensure_chat_def Let_def
      split: sum.splits prod.splits option.splits)

theorem chat_before_analysis_witness:
  "handleSend sample_env 11 12 13 14 \<lparr>input = sample_question, loading = False\<rparr> []
       fresh_module =
     (\<lparr>input = [], loading = False\<rparr>,
      [\<lparr>msg_id = decimal 11, msg_role = User, msg_text = sample_question,
        msg_timestamp = 12\<rparr>,
       \<lparr>msg_id = decimal (13 + 1), msg_role = Model, msg_text = sample_question,
        msg_timestamp = 14\<rparr>],
      \<lparr>chatInstance = Some (bare_chat\<lparr>chat_history :=
          [\<lparr>role = User, parts = [TextPart sample_question]\<rparr>,
           \<lparr>role = Model, parts = [TextPart sample_question]\<rparr>]\<rparr>),
       genAIInstance = Some \<lparr>apiKey = sample_key\<rparr>\<rparr>,
      []) \<and>
   handleSend failing_env 11 12 13 14 \<lparr>input = sample_question, loading = False\<rparr> []
       fresh_module =
     (\<lparr>input = [], loading = False\<rparr>,
      [\<lparr>msg_id = decimal 11, msg_role = User, msg_text = sample_question,
        msg_timestamp = 12\<rparr>,
       \<lparr>msg_id = decimal (13 + 1), msg_role = Model, msg_text = chat_error_text,
        msg_timestamp = 14\<rparr>],
      \<lparr>chatInstance = Some bare_chat, genAIInstance = Some \<lparr>apiKey = sample_key\<rparr>\<rparr>,
      [LogChatFailure (ServiceError [])])"
proof -
  let ?ui = "\<lparr>input = sample_question, loading = False\<rparr>"
  have h1: "chatInstance fresh_module = None" by (simp add: fresh_module_def)
  have h2: "trim (input ?ui) \<noteq> []" by (simp add: sample_question_not_blank)
  have h3: "\<not> loading ?ui" by simp
  have q: "sample_question \<noteq> []" by (simp add: sample_question_def)
  \<comment> \<open>the service answers\<close>
  have g1: "getAI sample_env fresh_module =
     Inr (\<lparr>apiKey = sample_key\<rparr>,
          \<lparr>chatInstance = None, genAIInstance = Some \<lparr>apiKey = sample_key\<rparr>\<rparr>)"
    by (rule getAI_fresh) (simp add: sample_env_def)
  have s1: "sendMessage sample_env bare_chat (input ?ui) =
     Inr (Some sample_question, bare_chat\<lparr>chat_history :=
          [\<lparr>role = User, parts = [TextPart sample_question]\<rparr>,
           \<lparr>role = Model, parts = [TextPart sample_question]\<rparr>]\<rparr>)"
    by (simp add: sample_env_def bare_chat_def)
  from chat_before_analysis[OF h1 h2 h3, of sample_env 11 12 13 14 "[]"]
  have a: "handleSend sample_env 11 12 13 14 ?ui [] fresh_module =
     (\<lparr>input = [], loading = False\<rparr>,
      [\<lparr>msg_id = decimal 11, msg_role = User, msg_text = sample_question,
        msg_timestamp = 12\<rparr>,
       \<lparr>msg_id = decimal (13 + 1), msg_role = Model, msg_text = sample_question,
        msg_timestamp = 14\<rparr>],
      \<lparr>chatInstance = Some (bare_chat\<lparr>chat_history :=
          [\<lparr>role = User, parts = [TextPart sample_question]\<rparr>,
           \<lparr>role = Model, parts = [TextPart sample_question]\<rparr>]\<rparr>),
       genAIInstance = Some \<lparr>apiKey = sample_key\<rparr>\<rparr>,
      [])"
    unfolding g1 s1 using q by auto
  \<comment> \<open>the service fails\<close>
  have g2: "getAI failing_env fresh_module =
     Inr (\<lparr>apiKey = sample_key\<rparr>,
          \<lparr>chatInstance = None, genAIInstance = Some \<lparr>apiKey = sample_key\<rparr>\<rparr>)"
    by (rule getAI_fresh) (simp add: failing_env_def sample_env_def)
  have s2: "sendMessage failing_env bare_chat (input ?ui) = Inl (ServiceError [])"
    by (simp add: failing_env_def)
  from chat_before_analysis[OF h1 h2 h3, of failing_env 11 12 13 14 "[]"]
  have b: "handleSend failing_env 11 12 13 14 ?ui [] fresh_module =
     (\<lparr>input = [], loading = False\<rparr>,
      [\<lparr>msg_id = decimal 11, msg_role = User, msg_text = sample_question,
        msg_timestamp = 12\<rparr>,
       \<lparr>msg_id = decimal (13 + 1), msg_role = Model, msg_text = chat_error_text,
        msg_timestamp = 14\<rparr>],
      \<lparr>chatInstance = Some bare_chat, genAIInstance = Some \<lparr>apiKey = sample_key\<rparr>\<rparr>,
      [LogChatFailure (ServiceError [])])"
    unfolding g2 s2 by auto
  from a b show ?thesis by blast
qed

text \<open>
  The claim as first stated lets no exception reach the caller of the chat operation and
  has every question answered. With a failing service \<^verbatim>\<open>sendChatMessage\<close> returns an
  error to its caller, and for an input of one space \<^verbatim>\<open>handleSend\<close> returns at its guard
  without asking the service and without a new transcript entry.
\<close>

theorem chat_before_analysis_counterexample:
  "fst (sendChatMessage failing_env sample_question fresh_module) = Inl (ServiceError []) \<and>
   handleSend sample_env 11 12 13 14 \<lparr>input = [0x20], loading = False\<rparr> [] fresh_module =
     (\<lparr>input = [0x20], loading = False\<rparr>, [], fresh_module, [])"
proof -
  have g: "getAI failing_env fresh_module =
     Inr (\<lparr>apiKey = sample_key\<rparr>,
          \<lparr>chatInstance = None, genAIInstance = Some \<lparr>apiKey = sample_key\<rparr>\<rparr>)"
    by (rule getAI_fresh) (simp add: failing_env_def sample_env_def)
  have s: "sendMessage failing_env bare_chat sample_question = Inl (ServiceError [])"
    by (simp add: failing_env_def)
  have c: "chatInstance fresh_module = None" by (simp add: fresh_module_def)
  have 1: "fst (sendChatMessage failing_env sample_question fresh_module) =
      Inl (ServiceError [])"
    by (simp add: sendChatMessage_def ensure_chat_def c g s)
  have "trim [0x20] = []" by (simp add: trim_def is_white_space_def)
  then have 2: "handleSend sample_env 11 12 13 14 \<lparr>input = [0x20], loading = False\<rparr> []
      fresh_module = (\<lparr>input = [0x20], loading = False\<rparr>, [], fresh_module, [])"
    by (simp add: handleSend_def)
  from 1 2 show ?thesis by blast
qed

section \<open>Running an analysis\<close>

text \<open>
  Claim C2, as amended. When the analysis call throws, \<^verbatim>\<open>runAnalysis\<close> catches the error
  once: it logs it and shows the one failure notice. The visualization data, the chat
  messages, the images and the email address are as before the run; the analysis result
  on display is cleared and the email status is reset to idle, both at the start of the
  run, before the call is made.
\<close>

theorem runAnalysis_failure:
  assumes "images s \<noteq> []"
    and "analyzeMarketImages env (images s) m = (Inl e, m', logged)"
  shows "runAnalysis env t1 t2 s m =
           (s\<lparr>analyzing := False, analysisResult := None, emailStatus := Idle\<rparr>, m',
            [LogAnalysisFailure e, Alert analysis_failed_notice])"
  using assms analyzeMarketImages_failure_logs[OF assms(2)]
  by (simp add: runAnalysis_def)

theorem runAnalysis_failure_witness:
  "runAnalysis failing_env 1 2 sample_state fresh_module =
     (sample_state\<lparr>analyzing := False, analysisResult := None, emailStatus := Idle\<rparr>,
      \<lparr>chatInstance = None, genAIInstance = Some \<lparr>apiKey = sample_key\<rparr>\<rparr>,
      [LogAnalysisFailure (ServiceError []), Alert analysis_failed_notice])"
proof -
  have 1: "images sample_state \<noteq> []" by (simp add: sample_state_def sample_files_def)
  have 2: "analyzeMarketImages failing_env (images sample_state) fresh_module =
     (Inl (ServiceError []),
      \<lparr>chatInstance = None, genAIInstance = Some \<lparr>apiKey = sample_key\<rparr>\<rparr>, [])"
    using failing_analysis by (simp add: sample_state_def)
  from runAnalysis_failure[OF 1 2] show ?thesis .
qed

text \<open>
  The claim as first stated leaves the displayed analysis result and the email status
  unchanged by a failed run. In the example the service fails, and the run replaces the
  report on display by \<^verbatim>\<open>null\<close> and the status \<^verbatim>\<open>sent\<close> by \<^verbatim>\<open>idle\<close>.
\<close>

theorem runAnalysis_failure_counterexample:
  "fst (analyzeMarketImages failing_env (images sample_state) fresh_module) =
     Inl (ServiceError []) \<and>
   analysisResult sample_state \<noteq> None \<and>
   analysisResult (fst (runAnalysis failing_env 1 2 sample_state fresh_module)) = None \<and>
   emailStatus sample_state = Sent \<and>
   emailStatus (fst (runAnalysis failing_env 1 2 sample_state fresh_module)) = Idle"
proof -
  have i: "images sample_state = sample_files" by (simp add: sample_state_def)
  have n: "sample_files \<noteq> []" by (simp add: sample_files_def)
  show ?thesis
    unfolding runAnalysis_def i failing_analysis using n
    by (simp add: sample_state_def)
qed

text \<open>
  Claim C3. In a run that completes (there are images, the client is available, the
  files are read and the service answers), the new result is stored; the visualization
  state changes only to a value decoded from the fenced block of the response text; and
  when the text has no block, or the block does not decode, the visualization state keeps
  its previous value while the result on display holds the full response text as report.
\<close>

theorem runAnalysis_visualization:
  assumes "images s \<noteq> []"
    and "getAI env m = Inr (ai, m1)"
    and "all_parts (images s) = Inr imageParts"
    and "generateContent env ai (analysis_request imageParts (length (images s))) =
           Inr response"
    and "fullText = (case response_text response of None \<Rightarrow> [] | Some t \<Rightarrow> t)"
    and "runAnalysis env t1 t2 s m = (s', m', logged)"
  shows "analysisResult s' =
           Some \<lparr>markdownReport = fst (parse_response env fullText),
                 visualizationData = fst (snd (parse_response env fullText)),
                 groundingLinks = grounding_links_of (grounding_chunks_of response)\<rparr> \<and>
         (visualization s' \<noteq> visualization s \<longrightarrow>
            (\<exists>g0 g1 v. json_match fullText = Some (g0, g1) \<and> json_parse env g1 = Some v \<and>
               visualization s' = v)) \<and>
         (json_match fullText = None \<or>
            (\<exists>g0 g1. json_match fullText = Some (g0, g1) \<and> json_parse env g1 = None) \<longrightarrow>
          visualization s' = visualization s \<and>
          (\<exists>r. analysisResult s' = Some r \<and> markdownReport r = fullText \<and>
               visualizationData r = None))"
proof -
  note a = analyzeMarketImages_success[OF assms(2-5)]
  let ?vis = "fst (snd (parse_response env fullText))"
  have r: "analysisResult s' =
           Some \<lparr>markdownReport = fst (parse_response env fullText),
                 visualizationData = ?vis,
                 groundingLinks = grounding_links_of (grounding_chunks_of response)\<rparr>"
    using assms(1,6) by (auto simp: runAnalysis_def a Let_def split: option.splits if_splits)
  have v: "visualization s' =
      (case ?vis of None \<Rightarrow> visualization s
       | Some v \<Rightarrow> if truthy env v then v else visualization s)"
    using assms(1,6) by (auto simp: runAnalysis_def a Let_def split: option.splits if_splits)
  have c2: "\<exists>g0 g1 v. json_match fullText = Some (g0, g1) \<and> json_parse env g1 = Some v \<and>
               visualization s' = v" if "visualization s' \<noteq> visualization s"
  proof -
    from that v obtain w where w: "?vis = Some w" "visualization s' = w"
      by (auto split: option.splits if_splits)
    from parse_response_data[OF w(1)] w(2) show ?thesis by blast
  qed
  have c3: "visualization s' = visualization s \<and>
          (\<exists>r. analysisResult s' = Some r \<and> markdownReport r = fullText \<and>
               visualizationData r = None)"
    if "json_match fullText = None \<or>
            (\<exists>g0 g1. json_match fullText = Some (g0, g1) \<and> json_parse env g1 = None)"
    using parse_response_nothing[OF that] r v by simp
  from r c2 c3 show ?thesis by blast
qed

theorem runAnalysis_visualization_witness:
  "visualization (fst (runAnalysis sample_env 1 2 sample_state fresh_module)) \<noteq>
     visualization sample_state \<and>
   (\<exists>g0 g1. json_match sample_text = Some (g0, g1) \<and>
      json_parse sample_env g1 =
        Some (visualization (fst (runAnalysis sample_env 1 2 sample_state fresh_module)))) \<and>
   visualization (fst (runAnalysis plain_env 1 2 sample_state fresh_module)) =
     visualization sample_state \<and>
   (\<exists>r. analysisResult (fst (runAnalysis plain_env 1 2 sample_state fresh_module)) = Some r \<and>
      markdownReport r = sample_pre \<and> visualizationData r = None)"
proof -
  have i: "images sample_state \<noteq> []"
    by (simp add: sample_state_images sample_files_nonempty)
  have p: "all_parts (images sample_state) =
     Inr [\<lparr>data = Some sample_base64, mimeType = sample_png\<rparr>,
          \<lparr>data = Some sample_base64, mimeType = sample_png\<rparr>]"
    by (simp add: sample_state_images sample_parts)
  \<comment> \<open>the run whose response holds the sample block\<close>
  have g1: "getAI sample_env fresh_module =
     Inr (\<lparr>apiKey = sample_key\<rparr>,
          \<lparr>chatInstance = None, genAIInstance = Some \<lparr>apiKey = sample_key\<rparr>\<rparr>)"
    by (rule getAI_fresh) (simp add: sample_env_def)
  have c1: "generateContent sample_env \<lparr>apiKey = sample_key\<rparr>
      (analysis_request [\<lparr>data = Some sample_base64, mimeType = sample_png\<rparr>,
          \<lparr>data = Some sample_base64, mimeType = sample_png\<rparr>]
        (length (images sample_state))) = Inr sample_response"
    by (simp add: sample_env_def)
  have t1: "sample_text = (case response_text sample_response of None \<Rightarrow> [] | Some t \<Rightarrow> t)"
    by (simp add: sample_response_def)
  obtain s' m' l where r1: "runAnalysis sample_env 1 2 sample_state fresh_module = (s', m', l)"
    using prod_cases3 by blast
  note a = runAnalysis_visualization[OF i g1 p c1 t1 r1]
  have an: "analyzeMarketImages sample_env sample_files fresh_module =
      (Inr \<lparr>markdownReport = sample_report, visualizationData = Some sample_visualization,
            groundingLinks = grounding_links_of (grounding_chunks_of sample_response)\<rparr>,
       \<lparr>chatInstance = None, genAIInstance = Some \<lparr>apiKey = sample_key\<rparr>\<rparr>
         \<lparr>chatInstance := Some (analysis_chat
            [\<lparr>data = Some sample_base64, mimeType = sample_png\<rparr>,
             \<lparr>data = Some sample_base64, mimeType = sample_png\<rparr>]
            (length sample_files) sample_text)\<rparr>, [])"
    using analyzeMarketImages_success[OF g1 p[unfolded sample_state_images]
          c1[unfolded sample_state_images] t1]
    by (simp add: sample_parse_response)
  have tr: "truthy sample_env sample_visualization" by (simp add: sample_env_def)
  have "visualization s' = sample_visualization"
    using r1 sample_files_nonempty tr
    by (auto simp: runAnalysis_def sample_state_images Let_def an split: if_splits)
  moreover have "visualization sample_state = INITIAL_VISUALIZATION_DATA"
    by (simp add: sample_state_def)
  ultimately have n: "visualization s' \<noteq> visualization sample_state"
    using sample_visualization_new by simp
  with a have e1: "\<exists>g0 g1. json_match sample_text = Some (g0, g1) \<and>
      json_parse sample_env g1 = Some (visualization s')" by blast
  \<comment> \<open>the run whose response holds no block\<close>
  have g2: "getAI plain_env fresh_module =
     Inr (\<lparr>apiKey = sample_key\<rparr>,
          \<lparr>chatInstance = None, genAIInstance = Some \<lparr>apiKey = sample_key\<rparr>\<rparr>)"
    by (rule getAI_fresh) (simp add: plain_env_def sample_env_def)
  have c2: "generateContent plain_env \<lparr>apiKey = sample_key\<rparr>
      (analysis_request [\<lparr>data = Some sample_base64, mimeType = sample_png\<rparr>,
          \<lparr>data = Some sample_base64, mimeType = sample_png\<rparr>]
        (length (images sample_state))) =
      Inr \<lparr>response_text = Some sample_pre, candidates = None\<rparr>"
    by (simp add: plain_env_def)
  have t2: "sample_pre =
      (case response_text \<lparr>response_text = Some sample_pre, candidates = None\<rparr> of
         None \<Rightarrow> [] | Some t \<Rightarrow> t)"
    by simp
  obtain s'' m'' l' where
    r2: "runAnalysis plain_env 1 2 sample_state fresh_module = (s'', m'', l')"
    using prod_cases3 by blast
  note b = runAnalysis_visualization[OF i g2 p c2 t2 r2]
  have "json_match sample_pre = None"
    using sample_pre_no_block by (rule json_match_None)
  with b have e2: "visualization s'' = visualization sample_state \<and>
      (\<exists>r. analysisResult s'' = Some r \<and> markdownReport r = sample_pre \<and>
           visualizationData r = None)" by blast
  show ?thesis unfolding r1 r2 fst_conv using n e1 e2 by blast
qed

end
